theory Spec2Isabelle
  imports Main "HOL-Library.AList"
begin

section \<open>JavaScript values decoded from JSON\<close>

text \<open>
  The two workers exchange JSON with their callers and keep JSON text in the key-value
  store. The values they handle are the JavaScript values that JSON decoding produces.

  A number is an IEEE double. The workers never calculate with the numbers of a
  document; they test them for truthiness and hand them to \<^verbatim>\<open>JSON.stringify\<close>. A
  finite number is therefore represented by the decimal text that the runtime's
  number-to-string conversion gives for it (\<^verbatim>\<open>1.5\<close>, \<^verbatim>\<open>9007199254740992\<close>,
  \<^verbatim>\<open>1e+21\<close>); distinct finite numbers have distinct texts and positive zero is
  \<^verbatim>\<open>0\<close>. Negative zero and the non-finite numbers are values of their own: decoding
  a numeral beyond the range of a double, such as \<^verbatim>\<open>1e400\<close>, yields \<open>PosInfinity\<close>.

  Strings are byte strings (the UTF-8 encoding of the text), and an object is the list
  of its members in property order; a JavaScript object holds each key once.
\<close>

datatype number = Finite string | NegZero | PosInfinity | NegInfinity | NaN

datatype json = JNull | JBool bool | JNum number | JStr string | JArr "json list" | JObj "(string \<times> json) list"

subsection \<open>\<^verbatim>\<open>JSON.stringify\<close>\<close>

text \<open>
  Decimal rendering of a natural number, as a template literal prints an integer below
  \<open>10\<^sup>2\<^sup>1\<close> (the only number the workers print themselves is \<^verbatim>\<open>Date.now()\<close>).
\<close>

definition digit_char :: "nat \<Rightarrow> char" where
  "digit_char d = ''0123456789'' ! d"

function show_nat :: "nat \<Rightarrow> string" where
  "show_nat n = (if n < 10 then [digit_char n] else show_nat (n div 10) @ [digit_char (n mod 10)])"
  by pat_completeness auto
termination
  by (relation "measure id") auto

declare show_nat.simps [simp del]

definition hex_digit :: "nat \<Rightarrow> char" where
  "hex_digit d = ''0123456789abcdef'' ! d"

text \<open>
  \<^verbatim>\<open>JSON.stringify\<close> of a number: the text of a finite number (negative zero prints as
  \<^verbatim>\<open>0\<close>), and \<^verbatim>\<open>null\<close> for a number that is not finite.
\<close>

fun stringify_number :: "number \<Rightarrow> string" where
  "stringify_number (Finite t) = t"
| "stringify_number NegZero = ''0''"
| "stringify_number PosInfinity = ''null''"
| "stringify_number NegInfinity = ''null''"
| "stringify_number NaN = ''null''"

text \<open>
  String quoting: the double quote (0x22) and the backslash (0x5C) are escaped, the
  control characters get their short escape or the six-character \<^verbatim>\<open>u00XX\<close> form.
\<close>

definition escape_char :: "char \<Rightarrow> string" where
  "escape_char c =
     (if c = CHR 0x22 then [CHR 0x5C, CHR 0x22]
      else if c = CHR 0x5C then [CHR 0x5C, CHR 0x5C]
      else if c = CHR 0x08 then [CHR 0x5C, CHR ''b'']
      else if c = CHR 0x0C then [CHR 0x5C, CHR ''f'']
      else if c = CHR 0x0A then [CHR 0x5C, CHR ''n'']
      else if c = CHR 0x0D then [CHR 0x5C, CHR ''r'']
      else if c = CHR 0x09 then [CHR 0x5C, CHR ''t'']
      else if (of_char c :: nat) < 32
        then [CHR 0x5C, CHR ''u'', CHR ''0'', CHR ''0'',
              hex_digit (of_char c div 16), hex_digit (of_char c mod 16)]
      else [c])"

definition quote_json :: "string \<Rightarrow> string" where
  "quote_json s = CHR 0x22 # concat (map escape_char s) @ [CHR 0x22]"

text \<open>\<^verbatim>\<open>Array.prototype.join\<close> on an array of strings.\<close>

fun join :: "string \<Rightarrow> string list \<Rightarrow> string" where
  "join sep [] = []"
| "join sep [x] = x"
| "join sep (x # y # ys) = x @ sep @ join sep (y # ys)"

primrec JSON_stringify :: "json \<Rightarrow> string" where
  "JSON_stringify JNull = ''null''"
| "JSON_stringify (JBool b) = (if b then ''true'' else ''false'')"
| "JSON_stringify (JNum x) = stringify_number x"
| "JSON_stringify (JStr s) = quote_json s"
| "JSON_stringify (JArr xs) = ''['' @ join '','' (map JSON_stringify xs) @ '']''"
| "JSON_stringify (JObj ms) =
     ''{'' @ join '','' (map (\<lambda>(k, t). quote_json k @ '':'' @ t) (map (map_prod id JSON_stringify) ms)) @ ''}''"

section \<open>JavaScript values and helpers\<close>

text \<open>
  A thrown exception is its message, the only part the workers read
  (\<^verbatim>\<open>error.message\<close>).
\<close>

datatype exn = Error (message: string)

text \<open>
  Truthiness: \<^verbatim>\<open>null\<close>, \<^verbatim>\<open>false\<close>, the zeros, \<^verbatim>\<open>NaN\<close> and the empty string are
  falsy; every other value, the infinities included, is truthy.
\<close>

fun truthy_number :: "number \<Rightarrow> bool" where
  "truthy_number (Finite t) = (t \<noteq> ''0'')"
| "truthy_number NegZero = False"
| "truthy_number PosInfinity = True"
| "truthy_number NegInfinity = True"
| "truthy_number NaN = False"

fun truthy :: "json \<Rightarrow> bool" where
  "truthy JNull = False"
| "truthy (JBool b) = b"
| "truthy (JNum x) = truthy_number x"
| "truthy (JStr s) = (s \<noteq> [])"
| "truthy (JArr xs) = True"
| "truthy (JObj ms) = True"

text \<open>
  Property access \<^verbatim>\<open>v.k\<close> for the keys the worker reads (\<^verbatim>\<open>section\<close>, \<^verbatim>\<open>data\<close>):
  \<open>None\<close> is \<^verbatim>\<open>undefined\<close>; reading a property of \<^verbatim>\<open>null\<close> throws a
  \<^verbatim>\<open>TypeError\<close>; booleans, numbers, strings and arrays have no such property.
\<close>

fun get_property :: "json \<Rightarrow> string \<Rightarrow> exn + json option" where
  "get_property JNull k =
     Inl (Error (''Cannot read properties of null (reading '' @ [CHR 0x27] @ k @ [CHR 0x27] @ '')''))"
| "get_property (JObj ms) k = Inr (map_of ms k)"
| "get_property v k = Inr None"

text \<open>
  \<^verbatim>\<open>String.prototype.toLowerCase\<close> on the ASCII letters, which is all that the
  comparison with \<^verbatim>\<open>'bearer '\<close> can observe, and \<^verbatim>\<open>startsWith\<close>.
\<close>

definition to_lower :: "char \<Rightarrow> char" where
  "to_lower c =
     (case map_of (zip ''ABCDEFGHIJKLMNOPQRSTUVWXYZ'' ''abcdefghijklmnopqrstuvwxyz'') c of
        Some l \<Rightarrow> l
      | None \<Rightarrow> c)"

definition toLowerCase :: "string \<Rightarrow> string" where
  "toLowerCase s = map to_lower s"

definition startsWith :: "string \<Rightarrow> string \<Rightarrow> bool" where
  "startsWith s p = (take (length p) s = p)"

text \<open>\<^verbatim>\<open>s.split(sep)\<close> for a one-character separator, and \<^verbatim>\<open>Array.prototype.pop\<close>.\<close>

fun split_on :: "char \<Rightarrow> string \<Rightarrow> string list" where
  "split_on sep [] = [[]]"
| "split_on sep (c # cs) =
     (if c = sep then [] # split_on sep cs
      else (c # hd (split_on sep cs)) # tl (split_on sep cs))"

definition pop :: "'a list \<Rightarrow> 'a option" where
  "pop xs = (if xs = [] then None else Some (last xs))"

text \<open>\<^verbatim>\<open>a || b\<close> on optional strings, and the truthiness of an optional string.\<close>

definition or_else :: "string option \<Rightarrow> string option \<Rightarrow> string option" where
  "or_else a b = (case a of None \<Rightarrow> b | Some s \<Rightarrow> if s = [] then b else a)"

definition truthy_str :: "string option \<Rightarrow> bool" where
  "truthy_str a = (case a of None \<Rightarrow> False | Some s \<Rightarrow> s \<noteq> [])"

section \<open>Requests, responses and the platform\<close>

text \<open>
  A response is its status (200 when the worker gives none), its headers and its body text.
  A request is what a handler observes of it: the method, the path of the URL, the
  headers (names in lower case, as \<^verbatim>\<open>Headers.get\<close> compares them), and the outcome of
  \<^verbatim>\<open>request.json()\<close> and of \<^verbatim>\<open>request.formData()\<close>, each either the exception thrown
  or the decoded value.
\<close>

record response =
  status :: nat
  headers :: "(string \<times> string) list"
  body_text :: "string option"

record upload_file =
  file_name :: string
  file_type :: string
  file_bytes :: string

datatype form_entry = FormString string | FormFile upload_file

record request =
  req_method :: string
  pathname :: string
  req_headers :: "(string \<times> string) list"
  json_result :: "exn + json"
  formData_result :: "exn + (string \<times> form_entry) list"

text \<open>
  What one invocation reads from the runtime: \<^verbatim>\<open>new Date().toISOString()\<close>,
  \<^verbatim>\<open>Date.now()\<close>, \<^verbatim>\<open>crypto.randomUUID()\<close>, whether the managed store is failing
  during this invocation (then every store call rejects with the given message), and the
  runtime's \<^verbatim>\<open>JSON.parse\<close>. The parser is not part of the repository; it is taken as it
  is, a function from a text to the decoded value, or to \<open>None\<close> where it throws a
  \<^verbatim>\<open>SyntaxError\<close>. Nothing below depends on how it decodes.
\<close>

record platform =
  iso_time :: string
  now_ms :: nat
  uuid :: string
  store_fault :: "string option"
  json_parse :: "string \<Rightarrow> json option"

definition headers_get :: "(string \<times> string) list \<Rightarrow> string \<Rightarrow> string option" where
  "headers_get hs name = map_of hs name"

definition json_response :: "nat \<Rightarrow> (string \<times> string) list \<Rightarrow> json \<Rightarrow> response" where
  "json_response st cors v =
     \<lparr>status = st, headers = (''Content-Type'', ''application/json'') # cors,
      body_text = Some (JSON_stringify v)\<rparr>"

definition error_body :: "string \<Rightarrow> string \<Rightarrow> json" where
  "error_body e m = JObj [(''error'', JStr e), (''message'', JStr m)]"

definition internal_error :: "(string \<times> string) list \<Rightarrow> exn \<Rightarrow> response" where
  "internal_error cors err = json_response 500 cors (error_body ''Internal Server Error'' (message err))"

subsection \<open>The key-value namespace\<close>

text \<open>
  The namespace maps keys to stored text. \<^verbatim>\<open>get(key, { type: 'json' })\<close> yields
  \<^verbatim>\<open>null\<close> for an absent key and the runtime's parse of the stored text otherwise;
  \<^verbatim>\<open>put(key, text)\<close> overwrites. The wording of the parse failure is the engine's and
  plays no role below.
\<close>

type_synonym kv_namespace = "string \<rightharpoonup> string"

definition json_syntax_message :: string where
  "json_syntax_message = ''Unexpected token in JSON''"

definition kv_get_json :: "platform \<Rightarrow> kv_namespace \<Rightarrow> string \<Rightarrow> exn + json" where
  "kv_get_json p kv key =
     (case store_fault p of
        Some m \<Rightarrow> Inl (Error m)
      | None \<Rightarrow>
          (case kv key of
             None \<Rightarrow> Inr JNull
           | Some t \<Rightarrow>
               (case json_parse p t of
                  None \<Rightarrow> Inl (Error json_syntax_message)
                | Some v \<Rightarrow> Inr v)))"

definition kv_put :: "platform \<Rightarrow> kv_namespace \<Rightarrow> string \<Rightarrow> string \<Rightarrow> exn + kv_namespace" where
  "kv_put p kv key text =
     (case store_fault p of
        Some m \<Rightarrow> Inl (Error m)
      | None \<Rightarrow> Inr (kv(key \<mapsto> text)))"

subsection \<open>The object bucket\<close>

record http_metadata =
  contentType :: "string option"
  cacheControl :: "string option"

record r2_object =
  object_bytes :: string
  httpMetadata :: http_metadata

type_synonym r2_bucket = "string \<rightharpoonup> r2_object"

definition r2_put :: "platform \<Rightarrow> r2_bucket \<Rightarrow> string \<Rightarrow> string \<Rightarrow> http_metadata \<Rightarrow> exn + r2_bucket" where
  "r2_put p bucket key bytes meta =
     (case store_fault p of
        Some m \<Rightarrow> Inl (Error m)
      | None \<Rightarrow> Inr (bucket(key \<mapsto> \<lparr>object_bytes = bytes, httpMetadata = meta\<rparr>)))"

section \<open>The content worker (\<^verbatim>\<open>src/workers/content-api-worker.js\<close>)\<close>

record env =
  CONTENT_STORE :: kv_namespace
  ADMIN_TOKEN :: "string option"

definition corsHeaders :: "(string \<times> string) list" where
  "corsHeaders =
     [(''Access-Control-Allow-Origin'', ''*''),
      (''Access-Control-Allow-Methods'', ''GET, POST, OPTIONS''),
      (''Access-Control-Allow-Headers'', ''Content-Type'')]"

subsection \<open>\<^verbatim>\<open>handleGetContent\<close>\<close>

text \<open>
  \<^verbatim>\<open>
  const sections = ['general', 'about', 'events', 'gallery', 'team'];
  const content = {};
  for (const section of sections) {
    const data = await env.CONTENT_STORE.get(section, { type: 'json' });
    if (data) { content[section] = data; }
  }
  if (Object.keys(content).length === 0) { return new Response(JSON.stringify({}), ...); }
  return new Response(JSON.stringify(content), ...);
  \<close>
  The loop is \<open>read_sections\<close>; an exception of the store leaves the loop and the
  handler (the \<^verbatim>\<open>catch\<close> block rethrows it).
\<close>

definition sections :: "string list" where
  "sections = [''general'', ''about'', ''events'', ''gallery'', ''team'']"

fun read_sections :: "platform \<Rightarrow> kv_namespace \<Rightarrow> string list \<Rightarrow> (string \<times> json) list
    \<Rightarrow> exn + (string \<times> json) list" where
  "read_sections p kv [] content = Inr content"
| "read_sections p kv (section # rest) content =
     (case kv_get_json p kv section of
        Inl err \<Rightarrow> Inl err
      | Inr data \<Rightarrow>
          if truthy data then read_sections p kv rest (AList.update section data content)
          else read_sections p kv rest content)"

definition handleGetContent :: "env \<Rightarrow> platform \<Rightarrow> exn + response" where
  "handleGetContent e p =
     (case read_sections p (CONTENT_STORE e) sections [] of
        Inl err \<Rightarrow> Inl err
      | Inr content \<Rightarrow>
          if length (map fst content) = 0 then Inr (json_response 200 corsHeaders (JObj []))
          else Inr (json_response 200 corsHeaders (JObj content)))"

text \<open>
  What the loop shows for a key of the store: the parsed value of the stored text when
  there is one, it parses and the value is truthy.
\<close>

definition visible_value :: "platform \<Rightarrow> kv_namespace \<Rightarrow> string \<Rightarrow> json option" where
  "visible_value p kv k =
     (case kv k of
        None \<Rightarrow> None
      | Some t \<Rightarrow>
          (case json_parse p t of
             None \<Rightarrow> None
           | Some v \<Rightarrow> if truthy v then Some v else None))"

subsection \<open>\<^verbatim>\<open>handleUpdateContent\<close>\<close>

text \<open>
  \<^verbatim>\<open>
  const authHeader = request.headers.get('x-admin-token') || request.headers.get('authorization');
  let providedToken = null;
  if (authHeader) {
    if (authHeader.toLowerCase().startsWith('bearer ')) { providedToken = authHeader.slice(7); }
    else { providedToken = authHeader; }
  }
  if (env.ADMIN_TOKEN) {
    if (!providedToken || providedToken !== env.ADMIN_TOKEN) { return 401 ... }
  }
  \<close>
\<close>

definition providedToken :: "request \<Rightarrow> string option" where
  "providedToken request =
     (case or_else (headers_get (req_headers request) ''x-admin-token'')
                   (headers_get (req_headers request) ''authorization'') of
        None \<Rightarrow> None
      | Some authHeader \<Rightarrow>
          if authHeader = [] then None
          else if startsWith (toLowerCase authHeader) ''bearer '' then Some (drop 7 authHeader)
          else Some authHeader)"

definition unauthorized :: "request \<Rightarrow> env \<Rightarrow> bool" where
  "unauthorized request e =
     (truthy_str (ADMIN_TOKEN e) \<and>
      (\<not> truthy_str (providedToken request) \<or> providedToken request \<noteq> ADMIN_TOKEN e))"

definition validSections :: "string list" where
  "validSections = [''general'', ''about'', ''events'', ''gallery'', ''team'']"

definition unauthorized_response :: response where
  "unauthorized_response =
     json_response 401 corsHeaders (error_body ''Unauthorized'' ''Missing or invalid admin token'')"

definition missing_fields_response :: response where
  "missing_fields_response =
     json_response 400 corsHeaders
       (error_body ''Bad Request'' ''Missing required fields: section and data'')"

definition invalid_section_response :: response where
  "invalid_section_response =
     json_response 400 corsHeaders
       (error_body ''Bad Request'' (''Invalid section. Must be one of: '' @ join '', '' validSections))"

definition updated_response :: "string \<Rightarrow> platform \<Rightarrow> response" where
  "updated_response section p =
     json_response 200 corsHeaders
       (JObj [(''success'', JBool True),
              (''message'', JStr (''Section '' @ [CHR 0x27] @ section @ [CHR 0x27] @ '' updated successfully'')),
              (''timestamp'', JStr (iso_time p))])"

text \<open>
  The handler, in the order of the source: the authorization check, \<^verbatim>\<open>request.json()\<close>,
  \<^verbatim>\<open>if (!body.section || !body.data)\<close> (an absent property and a falsy value are both
  rejected; \<^verbatim>\<open>body.data\<close> is read only when \<^verbatim>\<open>body.section\<close> is truthy),
  \<^verbatim>\<open>validSections.includes(section)\<close> (strict equality, so only a string can be
  included), and \<^verbatim>\<open>env.CONTENT_STORE.put(section, JSON.stringify(data))\<close>. Every exception
  is caught by the handler's own \<^verbatim>\<open>catch\<close> block and answered with status 500. The
  result is the response and the environment with the store as the handler leaves it.
\<close>

definition handleUpdateContent :: "request \<Rightarrow> env \<Rightarrow> platform \<Rightarrow> response \<times> env" where
  "handleUpdateContent request e p =
     (if unauthorized request e then (unauthorized_response, e)
      else
        (case json_result request of
           Inl err \<Rightarrow> (internal_error corsHeaders err, e)
         | Inr body \<Rightarrow>
             (case get_property body ''section'' of
                Inl err \<Rightarrow> (internal_error corsHeaders err, e)
              | Inr None \<Rightarrow> (missing_fields_response, e)
              | Inr (Some section) \<Rightarrow>
                  if \<not> truthy section then (missing_fields_response, e)
                  else
                    (case get_property body ''data'' of
                       Inl err \<Rightarrow> (internal_error corsHeaders err, e)
                     | Inr None \<Rightarrow> (missing_fields_response, e)
                     | Inr (Some data) \<Rightarrow>
                         if \<not> truthy data then (missing_fields_response, e)
                         else
                           (case section of
                              JStr name \<Rightarrow>
                                if name \<notin> set validSections then (invalid_section_response, e)
                                else
                                  (case kv_put p (CONTENT_STORE e) name (JSON_stringify data) of
                                     Inl err \<Rightarrow> (internal_error corsHeaders err, e)
                                   | Inr kv \<Rightarrow> (updated_response name p, e\<lparr>CONTENT_STORE := kv\<rparr>))
                            | _ \<Rightarrow> (invalid_section_response, e))))))"

text \<open>The value of \<^verbatim>\<open>!!body.k\<close> for a body other than \<^verbatim>\<open>null\<close>.\<close>

definition truthy_property :: "json \<Rightarrow> string \<Rightarrow> bool" where
  "truthy_property v k = (case get_property v k of Inr (Some x) \<Rightarrow> truthy x | _ \<Rightarrow> False)"

subsection \<open>\<^verbatim>\<open>fetch\<close>\<close>

text \<open>
  The router. A successful \<^verbatim>\<open>handleGetContent\<close> response is rebuilt with a
  \<^verbatim>\<open>Cache-Control\<close> header set; an exception that reaches the router is answered by its
  \<^verbatim>\<open>catch\<close> block.
\<close>

definition not_found_response :: response where
  "not_found_response = \<lparr>status = 404, headers = corsHeaders, body_text = Some ''Not Found''\<rparr>"

definition fetch :: "request \<Rightarrow> env \<Rightarrow> platform \<Rightarrow> response \<times> env" where
  "fetch request e p =
     (if req_method request = ''OPTIONS'' then
        (\<lparr>status = 200, headers = corsHeaders, body_text = None\<rparr>, e)
      else if pathname request = ''/content'' \<and> req_method request = ''GET'' then
        (case handleGetContent e p of
           Inl err \<Rightarrow> (internal_error corsHeaders err, e)
         | Inr res \<Rightarrow>
             (\<lparr>status = status res,
               headers = AList.update ''Cache-Control'' ''public, max-age=60, s-maxage=300'' (headers res),
               body_text = body_text res\<rparr>, e))
      else if pathname request = ''/content/update'' \<and> req_method request = ''POST'' then
        handleUpdateContent request e p
      else (not_found_response, e))"

section \<open>The upload worker (\<^verbatim>\<open>src/unnamed/part_000\<close>, \<^verbatim>\<open>part_001\<close> and \<^verbatim>\<open>part_002\<close>)\<close>

text \<open>
  The repository holds the uploader three times (in \<^verbatim>\<open>part_000\<close> it follows the
  deployment guide, from line 206). The three files agree except in the metadata of the
  stored object and in the construction of the public URL; the definitions carry the
  suffix of their file.
\<close>

record upload_env =
  IMAGES_BUCKET :: r2_bucket
  R2_PUBLIC_URL :: "string option"
  CLOUDFLARE_ACCOUNT_ID :: "string option"

definition corsHeaders_upload :: "(string \<times> string) list" where
  "corsHeaders_upload =
     [(''Access-Control-Allow-Origin'', ''*''),
      (''Access-Control-Allow-Methods'', ''POST, OPTIONS''),
      (''Access-Control-Allow-Headers'', ''Content-Type'')]"

definition no_file_response :: response where
  "no_file_response =
     json_response 400 corsHeaders_upload (error_body ''Bad Request'' ''No file provided'')"

definition method_not_allowed_response :: response where
  "method_not_allowed_response =
     \<lparr>status = 405, headers = corsHeaders_upload, body_text = Some ''Method Not Allowed''\<rparr>"

definition uploaded_response :: "string \<Rightarrow> string \<Rightarrow> platform \<Rightarrow> response" where
  "uploaded_response publicUrl filename p =
     json_response 200 corsHeaders_upload
       (JObj [(''success'', JBool True),
              (''url'', JStr publicUrl),
              (''filename'', JStr filename),
              (''timestamp'', JStr (iso_time p))])"

text \<open>
  \<^verbatim>\<open>
  const timestamp = Date.now();
  const randomId = crypto.randomUUID();
  const extension = file.name.split('.').pop();
  const filename = `${timestamp}-${randomId}.${extension}`;
  \<close>
\<close>

definition generate_filename :: "platform \<Rightarrow> upload_file \<Rightarrow> string" where
  "generate_filename p f =
     (let timestamp = now_ms p;
          randomId = uuid p;
          extension = pop (split_on (CHR ''.'') (file_name f))
      in show_nat timestamp @ ''-'' @ randomId @ ''.''
           @ (case extension of None \<Rightarrow> ''undefined'' | Some x \<Rightarrow> x))"

text \<open>
  A form field \<^verbatim>\<open>file\<close> that is a non-empty string passes \<^verbatim>\<open>if (!file)\<close>; it has no
  \<^verbatim>\<open>name\<close>, so \<^verbatim>\<open>file.name.split\<close> throws.
\<close>

definition split_of_undefined :: exn where
  "split_of_undefined =
     Error (''Cannot read properties of undefined (reading '' @ [CHR 0x27] @ ''split'' @ [CHR 0x27] @ '')'')"

definition handleUpload_001 :: "request \<Rightarrow> upload_env \<Rightarrow> platform \<Rightarrow> response \<times> upload_env" where
  "handleUpload_001 request e p =
     (case formData_result request of
        Inl err \<Rightarrow> (internal_error corsHeaders_upload err, e)
      | Inr formData \<Rightarrow>
          (case map_of formData ''file'' of
             None \<Rightarrow> (no_file_response, e)
           | Some (FormString s) \<Rightarrow>
               if s = [] then (no_file_response, e)
               else (internal_error corsHeaders_upload split_of_undefined, e)
           | Some (FormFile f) \<Rightarrow>
               (let filename = generate_filename p f
                in case r2_put p (IMAGES_BUCKET e) filename (file_bytes f)
                          \<lparr>contentType = Some (file_type f), cacheControl = None\<rparr> of
                     Inl err \<Rightarrow> (internal_error corsHeaders_upload err, e)
                   | Inr bucket \<Rightarrow>
                       (let publicUrl = ''https://pub-YOUR-R2-BUCKET-ID.r2.dev/'' @ filename
                        in (uploaded_response publicUrl filename p, e\<lparr>IMAGES_BUCKET := bucket\<rparr>)))))"

definition fetch_001 :: "request \<Rightarrow> upload_env \<Rightarrow> platform \<Rightarrow> response \<times> upload_env" where
  "fetch_001 request e p =
     (if req_method request = ''OPTIONS'' then
        (\<lparr>status = 200, headers = corsHeaders_upload, body_text = None\<rparr>, e)
      else if req_method request = ''POST'' then handleUpload_001 request e p
      else (method_not_allowed_response, e))"

text \<open>
  \<^verbatim>\<open>
  if (env.R2_PUBLIC_URL) { publicUrl = `${env.R2_PUBLIC_URL}${filename}`; }
  else {
    const accountId = env.CLOUDFLARE_ACCOUNT_ID || 'YOUR-ACCOUNT-ID';
    publicUrl = `https://pub-${accountId}.r2.dev/${filename}`;
  }
  \<close>
\<close>

definition or_default :: "string option \<Rightarrow> string \<Rightarrow> string" where
  "or_default a d = (case a of None \<Rightarrow> d | Some s \<Rightarrow> if s = [] then d else s)"

definition publicUrl_002 :: "upload_env \<Rightarrow> string \<Rightarrow> string" where
  "publicUrl_002 e filename =
     (let accountId = or_default (CLOUDFLARE_ACCOUNT_ID e) ''YOUR-ACCOUNT-ID'';
          fallback = ''https://pub-'' @ accountId @ ''.r2.dev/'' @ filename
      in case R2_PUBLIC_URL e of
           None \<Rightarrow> fallback
         | Some base \<Rightarrow> if base = [] then fallback else base @ filename)"

definition handleUpload_002 :: "request \<Rightarrow> upload_env \<Rightarrow> platform \<Rightarrow> response \<times> upload_env" where
  "handleUpload_002 request e p =
     (case formData_result request of
        Inl err \<Rightarrow> (internal_error corsHeaders_upload err, e)
      | Inr formData \<Rightarrow>
          (case map_of formData ''file'' of
             None \<Rightarrow> (no_file_response, e)
           | Some (FormString s) \<Rightarrow>
               if s = [] then (no_file_response, e)
               else (internal_error corsHeaders_upload split_of_undefined, e)
           | Some (FormFile f) \<Rightarrow>
               (let filename = generate_filename p f
                in case r2_put p (IMAGES_BUCKET e) filename (file_bytes f)
                          \<lparr>contentType = Some (file_type f),
                           cacheControl = Some ''public, max-age=31536000, immutable''\<rparr> of
                     Inl err \<Rightarrow> (internal_error corsHeaders_upload err, e)
                   | Inr bucket \<Rightarrow>
                       (uploaded_response (publicUrl_002 e filename) filename p,
                        e\<lparr>IMAGES_BUCKET := bucket\<rparr>))))"

definition fetch_002 :: "request \<Rightarrow> upload_env \<Rightarrow> platform \<Rightarrow> response \<times> upload_env" where
  "fetch_002 request e p =
     (if req_method request = ''OPTIONS'' then
        (\<lparr>status = 200, headers = corsHeaders_upload, body_text = None\<rparr>, e)
      else if req_method request = ''POST'' then handleUpload_002 request e p
      else (method_not_allowed_response, e))"

text \<open>
  The copy in \<^verbatim>\<open>part_000\<close>:
  \<^verbatim>\<open>
  const publicBase = env.R2_PUBLIC_URL || 'https://pub-YOUR-R2-BUCKET-ID.r2.dev';
  const publicUrl = `${publicBase.replace(/\/$/, '')}/${filename}`;
  \<close>
  The replacement removes one slash at the end of the base, if there is one.
\<close>

definition strip_trailing_slash :: "string \<Rightarrow> string" where
  "strip_trailing_slash s = (if s \<noteq> [] \<and> last s = CHR ''/'' then butlast s else s)"

definition publicUrl_000 :: "upload_env \<Rightarrow> string \<Rightarrow> string" where
  "publicUrl_000 e filename =
     (let publicBase = or_default (R2_PUBLIC_URL e) ''https://pub-YOUR-R2-BUCKET-ID.r2.dev''
      in strip_trailing_slash publicBase @ ''/'' @ filename)"

definition handleUpload_000 :: "request \<Rightarrow> upload_env \<Rightarrow> platform \<Rightarrow> response \<times> upload_env" where
  "handleUpload_000 request e p =
     (case formData_result request of
        Inl err \<Rightarrow> (internal_error corsHeaders_upload err, e)
      | Inr formData \<Rightarrow>
          (case map_of formData ''file'' of
             None \<Rightarrow> (no_file_response, e)
           | Some (FormString s) \<Rightarrow>
               if s = [] then (no_file_response, e)
               else (internal_error corsHeaders_upload split_of_undefined, e)
           | Some (FormFile f) \<Rightarrow>
               (let filename = generate_filename p f
                in case r2_put p (IMAGES_BUCKET e) filename (file_bytes f)
                          \<lparr>contentType = Some (file_type f),
                           cacheControl = Some ''public, max-age=31536000, immutable''\<rparr> of
                     Inl err \<Rightarrow> (internal_error corsHeaders_upload err, e)
                   | Inr bucket \<Rightarrow>
                       (uploaded_response (publicUrl_000 e filename) filename p,
                        e\<lparr>IMAGES_BUCKET := bucket\<rparr>))))"

definition fetch_000 :: "request \<Rightarrow> upload_env \<Rightarrow> platform \<Rightarrow> response \<times> upload_env" where
  "fetch_000 request e p =
     (if req_method request = ''OPTIONS'' then
        (\<lparr>status = 200, headers = corsHeaders_upload, body_text = None\<rparr>, e)
      else if req_method request = ''POST'' then handleUpload_000 request e p
      else (method_not_allowed_response, e))"

section \<open>Example inputs\<close>

text \<open>Concrete requests, environments and runtime readings on which the results below are run.\<close>

definition ex_team :: json where
  "ex_team = JObj [(''title'', JStr ''Test''), (''team'', JArr [])]"

text \<open>
  The values that \<^verbatim>\<open>JSON.parse\<close> returns for the texts the examples keep in the store:
  \<^verbatim>\<open>null\<close>, \<^verbatim>\<open>false\<close>, \<^verbatim>\<open>[1]\<close> and the text of \<open>ex_team\<close>. The examples read
  no other text.
\<close>

definition ex_parse :: "string \<Rightarrow> json option" where
  "ex_parse =
     [''null'' \<mapsto> JNull,
      ''false'' \<mapsto> JBool False,
      ''[1]'' \<mapsto> JArr [JNum (Finite ''1'')],
      JSON_stringify ex_team \<mapsto> ex_team]"

definition ex_platform :: platform where
  "ex_platform =
     \<lparr>iso_time = ''2026-11-03T10:00:00.000Z'', now_ms = 1793700000000,
      uuid = ''123e4567-e89b-42d3-a456-426614174000'', store_fault = None,
      json_parse = ex_parse\<rparr>"

definition ex_photo :: upload_file where
  "ex_photo = \<lparr>file_name = ''photo.png'', file_type = ''image/png'', file_bytes = ''PNGDATA''\<rparr>"

definition form_request :: "string \<Rightarrow> string \<Rightarrow> (string \<times> form_entry) list \<Rightarrow> request" where
  "form_request m path entries =
     \<lparr>req_method = m, pathname = path, req_headers = [],
      json_result = Inl (Error ''Unexpected token''),
      formData_result = Inr entries\<rparr>"

definition json_request :: "string \<Rightarrow> string \<Rightarrow> (string \<times> string) list \<Rightarrow> json \<Rightarrow> request" where
  "json_request m path hs v =
     \<lparr>req_method = m, pathname = path, req_headers = hs,
      json_result = Inr v,
      formData_result = Inl (Error ''Unrecognized Content-Type'')\<rparr>"

definition ex_upload_env :: upload_env where
  "ex_upload_env = \<lparr>IMAGES_BUCKET = Map.empty, R2_PUBLIC_URL = None, CLOUDFLARE_ACCOUNT_ID = None\<rparr>"

definition ex_env :: env where
  "ex_env = \<lparr>CONTENT_STORE = Map.empty, ADMIN_TOKEN = None\<rparr>"

section \<open>Properties of the upload worker\<close>

subsection \<open>The generated object key\<close>

lemma split_on_nonempty: "split_on sep s \<noteq> []"
  by (induction s) simp_all

lemma split_on_no_sep: "sep \<notin> set s \<Longrightarrow> split_on sep s = [s]"
  by (induction s) auto

lemma last_split_on_append: "last (split_on sep (a @ sep # b)) = last (split_on sep b)"
proof (induction a)
  case Nil
  then show ?case by (simp add: split_on_nonempty)
next
  case (Cons c a)
  have "tl (split_on sep (a @ sep # b)) \<noteq> []"
    by (induction a) (simp_all add: split_on_nonempty)
  with Cons show ?case
    by (simp add: split_on_nonempty last_tl)
qed

lemma generate_filename_eq:
  "generate_filename p f =
     show_nat (now_ms p) @ ''-'' @ uuid p @ ''.'' @ last (split_on (CHR ''.'') (file_name f))"
  by (simp add: generate_filename_def pop_def split_on_nonempty)

lemma extension_of_name:
  assumes "CHR ''.'' \<notin> set ext"
  shows "last (split_on (CHR ''.'') (stem @ ''.'' @ ext)) = ext"
  using assms by (simp add: last_split_on_append split_on_no_sep)

lemma status_simps [simp]:
  "status (json_response st cors v) = st"
  "status (internal_error cors err) = 500"
  "status no_file_response = 400"
  "status (uploaded_response u k p) = 200"
  "status method_not_allowed_response = 405"
  "status unauthorized_response = 401"
  "status missing_fields_response = 400"
  "status invalid_section_response = 400"
  "status (updated_response s p) = 200"
  "status not_found_response = 404"
  by (simp_all add: json_response_def internal_error_def no_file_response_def uploaded_response_def
      method_not_allowed_response_def unauthorized_response_def missing_fields_response_def
      invalid_section_response_def updated_response_def not_found_response_def)

lemma handleUpload_001_success:
  assumes "handleUpload_001 request e p = (res, e')" and "status res = 200"
  shows "\<exists>formData f. formData_result request = Inr formData \<and> map_of formData ''file'' = Some (FormFile f)
           \<and> store_fault p = None
           \<and> res = uploaded_response (''https://pub-YOUR-R2-BUCKET-ID.r2.dev/'' @ generate_filename p f)
                     (generate_filename p f) p
           \<and> e' = e\<lparr>IMAGES_BUCKET := (IMAGES_BUCKET e)(generate_filename p f \<mapsto>
                     \<lparr>object_bytes = file_bytes f,
                      httpMetadata = \<lparr>contentType = Some (file_type f), cacheControl = None\<rparr>\<rparr>)\<rparr>"
  using assms
  by (auto simp: handleUpload_001_def r2_put_def Let_def
      split: sum.splits option.splits form_entry.splits if_splits)

lemma handleUpload_002_success:
  assumes "handleUpload_002 request e p = (res, e')" and "status res = 200"
  shows "\<exists>formData f. formData_result request = Inr formData \<and> map_of formData ''file'' = Some (FormFile f)
           \<and> store_fault p = None
           \<and> res = uploaded_response (publicUrl_002 e (generate_filename p f)) (generate_filename p f) p
           \<and> e' = e\<lparr>IMAGES_BUCKET := (IMAGES_BUCKET e)(generate_filename p f \<mapsto>
                     \<lparr>object_bytes = file_bytes f,
                      httpMetadata = \<lparr>contentType = Some (file_type f),
                                      cacheControl = Some ''public, max-age=31536000, immutable''\<rparr>\<rparr>)\<rparr>"
  using assms
  by (auto simp: handleUpload_002_def r2_put_def Let_def
      split: sum.splits option.splits form_entry.splits if_splits)

lemma handleUpload_000_success:
  assumes "handleUpload_000 request e p = (res, e')" and "status res = 200"
  shows "\<exists>formData f. formData_result request = Inr formData \<and> map_of formData ''file'' = Some (FormFile f)
           \<and> store_fault p = None
           \<and> res = uploaded_response (publicUrl_000 e (generate_filename p f)) (generate_filename p f) p
           \<and> e' = e\<lparr>IMAGES_BUCKET := (IMAGES_BUCKET e)(generate_filename p f \<mapsto>
                     \<lparr>object_bytes = file_bytes f,
                      httpMetadata = \<lparr>contentType = Some (file_type f),
                                      cacheControl = Some ''public, max-age=31536000, immutable''\<rparr>\<rparr>)\<rparr>"
  using assms
  by (auto simp: handleUpload_000_def r2_put_def Let_def
      split: sum.splits option.splits form_entry.splits if_splits)

lemma publicUrl_000_suffix: "\<exists>base. publicUrl_000 e filename = base @ filename"
proof -
  have "publicUrl_000 e filename
      = (strip_trailing_slash (or_default (R2_PUBLIC_URL e) ''https://pub-YOUR-R2-BUCKET-ID.r2.dev'') @ ''/'')
        @ filename"
    by (simp add: publicUrl_000_def)
  then show ?thesis by blast
qed

lemma publicUrl_002_suffix: "\<exists>base. publicUrl_002 e filename = base @ filename"
proof (cases "R2_PUBLIC_URL e")
  case None
  then have "publicUrl_002 e filename
      = (''https://pub-'' @ or_default (CLOUDFLARE_ACCOUNT_ID e) ''YOUR-ACCOUNT-ID'' @ ''.r2.dev/'') @ filename"
    by (simp add: publicUrl_002_def)
  then show ?thesis by blast
next
  case (Some b)
  show ?thesis
  proof (cases "b = []")
    case True
    then have "publicUrl_002 e filename
        = (''https://pub-'' @ or_default (CLOUDFLARE_ACCOUNT_ID e) ''YOUR-ACCOUNT-ID'' @ ''.r2.dev/'') @ filename"
      using Some by (simp add: publicUrl_002_def)
    then show ?thesis by blast
  next
    case False
    then have "publicUrl_002 e filename = b @ filename"
      using Some by (simp add: publicUrl_002_def)
    then show ?thesis by blast
  qed
qed

lemma handleUpload_001_total:
  assumes "formData_result request = Inr formData" and "map_of formData ''file'' = Some (FormFile f)"
      and "store_fault p = None"
  shows "handleUpload_001 request e p
     = (uploaded_response (''https://pub-YOUR-R2-BUCKET-ID.r2.dev/'' @ generate_filename p f)
          (generate_filename p f) p,
        e\<lparr>IMAGES_BUCKET := (IMAGES_BUCKET e)(generate_filename p f \<mapsto>
          \<lparr>object_bytes = file_bytes f,
           httpMetadata = \<lparr>contentType = Some (file_type f), cacheControl = None\<rparr>\<rparr>)\<rparr>)"
  using assms by (simp add: handleUpload_001_def r2_put_def Let_def)

lemma handleUpload_000_total:
  assumes "formData_result request = Inr formData" and "map_of formData ''file'' = Some (FormFile f)"
      and "store_fault p = None"
  shows "handleUpload_000 request e p
     = (uploaded_response (publicUrl_000 e (generate_filename p f)) (generate_filename p f) p,
        e\<lparr>IMAGES_BUCKET := (IMAGES_BUCKET e)(generate_filename p f \<mapsto>
          \<lparr>object_bytes = file_bytes f,
           httpMetadata = \<lparr>contentType = Some (file_type f),
                           cacheControl = Some ''public, max-age=31536000, immutable''\<rparr>\<rparr>)\<rparr>)"
  using assms by (simp add: handleUpload_000_def r2_put_def Let_def)

lemma handleUpload_002_total:
  assumes "formData_result request = Inr formData" and "map_of formData ''file'' = Some (FormFile f)"
      and "store_fault p = None"
  shows "handleUpload_002 request e p
     = (uploaded_response (publicUrl_002 e (generate_filename p f)) (generate_filename p f) p,
        e\<lparr>IMAGES_BUCKET := (IMAGES_BUCKET e)(generate_filename p f \<mapsto>
          \<lparr>object_bytes = file_bytes f,
           httpMetadata = \<lparr>contentType = Some (file_type f),
                           cacheControl = Some ''public, max-age=31536000, immutable''\<rparr>\<rparr>)\<rparr>)"
  using assms by (simp add: handleUpload_002_def r2_put_def Let_def)

text \<open>
  C6. An upload whose form data holds a file under \<^verbatim>\<open>file\<close> succeeds in each of the
  three copies of the uploader whenever the object store accepts the write: the response
  has status 200 and the object is stored under the generated key. For every successful
  upload (any copy), the generated object key is the decimal epoch-millisecond reading, a hyphen, the
  random UUID, a dot and the extension, where the extension is the part of the original
  file name after its last dot; the \<^verbatim>\<open>filename\<close> field of the response is that key, the
  object is stored under it, and the returned URL ends with it. For a name \<open>stem.ext\<close>
  whose \<open>ext\<close> has no dot, the key ends in \<open>.ext\<close>.
\<close>

theorem upload_key_format:
  "(formData_result request = Inr formData \<and> map_of formData ''file'' = Some (FormFile f)
      \<and> store_fault p = None
    \<longrightarrow> generate_filename p f
          = show_nat (now_ms p) @ ''-'' @ uuid p @ ''.'' @ last (split_on (CHR ''.'') (file_name f))
      \<and> handleUpload_001 request e p
          = (uploaded_response (''https://pub-YOUR-R2-BUCKET-ID.r2.dev/'' @ generate_filename p f)
               (generate_filename p f) p,
             e\<lparr>IMAGES_BUCKET := (IMAGES_BUCKET e)(generate_filename p f \<mapsto>
               \<lparr>object_bytes = file_bytes f,
                httpMetadata = \<lparr>contentType = Some (file_type f), cacheControl = None\<rparr>\<rparr>)\<rparr>)
      \<and> (\<exists>base. handleUpload_002 request e p
          = (uploaded_response (base @ generate_filename p f) (generate_filename p f) p,
             e\<lparr>IMAGES_BUCKET := (IMAGES_BUCKET e)(generate_filename p f \<mapsto>
               \<lparr>object_bytes = file_bytes f,
                httpMetadata = \<lparr>contentType = Some (file_type f),
                                cacheControl = Some ''public, max-age=31536000, immutable''\<rparr>\<rparr>)\<rparr>))
      \<and> status (fst (handleUpload_001 request e p)) = 200
      \<and> status (fst (handleUpload_002 request e p)) = 200
      \<and> (\<exists>base. handleUpload_000 request e p
          = (uploaded_response (base @ generate_filename p f) (generate_filename p f) p,
             e\<lparr>IMAGES_BUCKET := (IMAGES_BUCKET e)(generate_filename p f \<mapsto>
               \<lparr>object_bytes = file_bytes f,
                httpMetadata = \<lparr>contentType = Some (file_type f),
                                cacheControl = Some ''public, max-age=31536000, immutable''\<rparr>\<rparr>)\<rparr>))
      \<and> status (fst (handleUpload_000 request e p)) = 200)
   \<and> ((handleUpload_001 request e p = (res, e') \<or> handleUpload_002 request e p = (res, e')
         \<or> handleUpload_000 request e p = (res, e'))
        \<and> status res = 200
    \<longrightarrow> (\<exists>formData f key base.
           formData_result request = Inr formData \<and> map_of formData ''file'' = Some (FormFile f)
         \<and> key = show_nat (now_ms p) @ ''-'' @ uuid p @ ''.'' @ last (split_on (CHR ''.'') (file_name f))
         \<and> (\<forall>stem ext. file_name f = stem @ ''.'' @ ext \<and> CHR ''.'' \<notin> set ext
               \<longrightarrow> key = show_nat (now_ms p) @ ''-'' @ uuid p @ ''.'' @ ext)
         \<and> res = uploaded_response (base @ key) key p
         \<and> body_text res = Some (JSON_stringify (JObj
               [(''success'', JBool True), (''url'', JStr (base @ key)), (''filename'', JStr key),
                (''timestamp'', JStr (iso_time p))]))
         \<and> (\<exists>meta. IMAGES_BUCKET e' key = Some \<lparr>object_bytes = file_bytes f, httpMetadata = meta\<rparr>)))"
proof (intro conjI impI)
  assume a: "formData_result request = Inr formData \<and> map_of formData ''file'' = Some (FormFile f)
      \<and> store_fault p = None"
  then have fd: "formData_result request = Inr formData" "map_of formData ''file'' = Some (FormFile f)"
    "store_fault p = None"
    by simp_all
  show "generate_filename p f
          = show_nat (now_ms p) @ ''-'' @ uuid p @ ''.'' @ last (split_on (CHR ''.'') (file_name f))"
    by (rule generate_filename_eq)
  show r1: "handleUpload_001 request e p
          = (uploaded_response (''https://pub-YOUR-R2-BUCKET-ID.r2.dev/'' @ generate_filename p f)
               (generate_filename p f) p,
             e\<lparr>IMAGES_BUCKET := (IMAGES_BUCKET e)(generate_filename p f \<mapsto>
               \<lparr>object_bytes = file_bytes f,
                httpMetadata = \<lparr>contentType = Some (file_type f), cacheControl = None\<rparr>\<rparr>)\<rparr>)"
    by (rule handleUpload_001_total [OF fd])
  obtain base where b: "publicUrl_002 e (generate_filename p f) = base @ generate_filename p f"
    using publicUrl_002_suffix by blast
  have r2: "handleUpload_002 request e p
          = (uploaded_response (base @ generate_filename p f) (generate_filename p f) p,
             e\<lparr>IMAGES_BUCKET := (IMAGES_BUCKET e)(generate_filename p f \<mapsto>
               \<lparr>object_bytes = file_bytes f,
                httpMetadata = \<lparr>contentType = Some (file_type f),
                                cacheControl = Some ''public, max-age=31536000, immutable''\<rparr>\<rparr>)\<rparr>)"
    using handleUpload_002_total [OF fd, of e] unfolding b .
  then show "\<exists>base. handleUpload_002 request e p
          = (uploaded_response (base @ generate_filename p f) (generate_filename p f) p,
             e\<lparr>IMAGES_BUCKET := (IMAGES_BUCKET e)(generate_filename p f \<mapsto>
               \<lparr>object_bytes = file_bytes f,
                httpMetadata = \<lparr>contentType = Some (file_type f),
                                cacheControl = Some ''public, max-age=31536000, immutable''\<rparr>\<rparr>)\<rparr>)"
    by blast
  show "status (fst (handleUpload_001 request e p)) = 200"
    unfolding r1 by simp
  show "status (fst (handleUpload_002 request e p)) = 200"
    unfolding r2 by simp
  obtain base0 where b0: "publicUrl_000 e (generate_filename p f) = base0 @ generate_filename p f"
    using publicUrl_000_suffix by blast
  have r0: "handleUpload_000 request e p
          = (uploaded_response (base0 @ generate_filename p f) (generate_filename p f) p,
             e\<lparr>IMAGES_BUCKET := (IMAGES_BUCKET e)(generate_filename p f \<mapsto>
               \<lparr>object_bytes = file_bytes f,
                httpMetadata = \<lparr>contentType = Some (file_type f),
                                cacheControl = Some ''public, max-age=31536000, immutable''\<rparr>\<rparr>)\<rparr>)"
    using handleUpload_000_total [OF fd, of e] unfolding b0 .
  then show "\<exists>base. handleUpload_000 request e p
          = (uploaded_response (base @ generate_filename p f) (generate_filename p f) p,
             e\<lparr>IMAGES_BUCKET := (IMAGES_BUCKET e)(generate_filename p f \<mapsto>
               \<lparr>object_bytes = file_bytes f,
                httpMetadata = \<lparr>contentType = Some (file_type f),
                                cacheControl = Some ''public, max-age=31536000, immutable''\<rparr>\<rparr>)\<rparr>)"
    by blast
  show "status (fst (handleUpload_000 request e p)) = 200"
    unfolding r0 by simp
next
  assume h: "(handleUpload_001 request e p = (res, e') \<or> handleUpload_002 request e p = (res, e')
         \<or> handleUpload_000 request e p = (res, e'))
        \<and> status res = 200"
  then have st200: "status res = 200" and either:
    "handleUpload_001 request e p = (res, e') \<or> handleUpload_002 request e p = (res, e')
       \<or> handleUpload_000 request e p = (res, e')"
    by simp_all
  from either obtain formData f base where
    fd: "formData_result request = Inr formData" "map_of formData ''file'' = Some (FormFile f)"
    and res: "res = uploaded_response (base @ generate_filename p f) (generate_filename p f) p"
    and st: "\<exists>meta. IMAGES_BUCKET e' (generate_filename p f)
                = Some \<lparr>object_bytes = file_bytes f, httpMetadata = meta\<rparr>"
  proof (elim disjE)
    assume h1: "handleUpload_001 request e p = (res, e')"
    from handleUpload_001_success [OF h1 st200] show ?thesis
      by (auto intro!: that [where base = "''https://pub-YOUR-R2-BUCKET-ID.r2.dev/''"])
  next
    assume h0: "handleUpload_000 request e p = (res, e')"
    from handleUpload_000_success [OF h0 st200] obtain formData f where
      a: "formData_result request = Inr formData" "map_of formData ''file'' = Some (FormFile f)"
         "res = uploaded_response (publicUrl_000 e (generate_filename p f)) (generate_filename p f) p"
         "e' = e\<lparr>IMAGES_BUCKET := (IMAGES_BUCKET e)(generate_filename p f \<mapsto>
                     \<lparr>object_bytes = file_bytes f,
                      httpMetadata = \<lparr>contentType = Some (file_type f),
                                      cacheControl = Some ''public, max-age=31536000, immutable''\<rparr>\<rparr>)\<rparr>"
      by blast
    obtain base where b: "publicUrl_000 e (generate_filename p f) = base @ generate_filename p f"
      using publicUrl_000_suffix by blast
    show ?thesis
      by (rule that [of formData f base]) (use a b in simp_all)
  next
    assume h2: "handleUpload_002 request e p = (res, e')"
    from handleUpload_002_success [OF h2 st200] obtain formData f where
      a: "formData_result request = Inr formData" "map_of formData ''file'' = Some (FormFile f)"
         "res = uploaded_response (publicUrl_002 e (generate_filename p f)) (generate_filename p f) p"
         "e' = e\<lparr>IMAGES_BUCKET := (IMAGES_BUCKET e)(generate_filename p f \<mapsto>
                     \<lparr>object_bytes = file_bytes f,
                      httpMetadata = \<lparr>contentType = Some (file_type f),
                                      cacheControl = Some ''public, max-age=31536000, immutable''\<rparr>\<rparr>)\<rparr>"
      by blast
    obtain base where b: "publicUrl_002 e (generate_filename p f) = base @ generate_filename p f"
      using publicUrl_002_suffix by blast
    show ?thesis
      by (rule that [of formData f base]) (use a b in simp_all)
  qed
  let ?key = "show_nat (now_ms p) @ ''-'' @ uuid p @ ''.'' @ last (split_on (CHR ''.'') (file_name f))"
  have key: "generate_filename p f = ?key"
    by (rule generate_filename_eq)
  have ext: "\<forall>stem ext. file_name f = stem @ ''.'' @ ext \<and> CHR ''.'' \<notin> set ext
               \<longrightarrow> ?key = show_nat (now_ms p) @ ''-'' @ uuid p @ ''.'' @ ext"
    using extension_of_name by auto
  have bd: "body_text res = Some (JSON_stringify (JObj
               [(''success'', JBool True), (''url'', JStr (base @ ?key)), (''filename'', JStr ?key),
                (''timestamp'', JStr (iso_time p))]))"
    unfolding res key by (simp add: uploaded_response_def json_response_def)
  show "\<exists>formData f key base.
           formData_result request = Inr formData \<and> map_of formData ''file'' = Some (FormFile f)
         \<and> key = show_nat (now_ms p) @ ''-'' @ uuid p @ ''.'' @ last (split_on (CHR ''.'') (file_name f))
         \<and> (\<forall>stem ext. file_name f = stem @ ''.'' @ ext \<and> CHR ''.'' \<notin> set ext
               \<longrightarrow> key = show_nat (now_ms p) @ ''-'' @ uuid p @ ''.'' @ ext)
         \<and> res = uploaded_response (base @ key) key p
         \<and> body_text res = Some (JSON_stringify (JObj
               [(''success'', JBool True), (''url'', JStr (base @ key)), (''filename'', JStr key),
                (''timestamp'', JStr (iso_time p))]))
         \<and> (\<exists>meta. IMAGES_BUCKET e' key = Some \<lparr>object_bytes = file_bytes f, httpMetadata = meta\<rparr>)"
    using fd ext bd res st unfolding key by blast
qed

theorem upload_key_format_witness:
  "handleUpload_001 (form_request ''POST'' ''/upload'' [(''file'', FormFile ex_photo)]) ex_upload_env ex_platform
     = (uploaded_response
          (''https://pub-YOUR-R2-BUCKET-ID.r2.dev/'' @ ''1793700000000-123e4567-e89b-42d3-a456-426614174000.png'')
          ''1793700000000-123e4567-e89b-42d3-a456-426614174000.png'' ex_platform,
        ex_upload_env\<lparr>IMAGES_BUCKET := (IMAGES_BUCKET ex_upload_env)
          (''1793700000000-123e4567-e89b-42d3-a456-426614174000.png'' \<mapsto>
             \<lparr>object_bytes = ''PNGDATA'',
              httpMetadata = \<lparr>contentType = Some ''image/png'', cacheControl = None\<rparr>\<rparr>)\<rparr>)
   \<and> (\<exists>base. handleUpload_002 (form_request ''POST'' ''/upload'' [(''file'', FormFile ex_photo)])
                  ex_upload_env ex_platform
     = (uploaded_response
          (base @ ''1793700000000-123e4567-e89b-42d3-a456-426614174000.png'')
          ''1793700000000-123e4567-e89b-42d3-a456-426614174000.png'' ex_platform,
        ex_upload_env\<lparr>IMAGES_BUCKET := (IMAGES_BUCKET ex_upload_env)
          (''1793700000000-123e4567-e89b-42d3-a456-426614174000.png'' \<mapsto>
             \<lparr>object_bytes = ''PNGDATA'',
              httpMetadata = \<lparr>contentType = Some ''image/png'',
                              cacheControl = Some ''public, max-age=31536000, immutable''\<rparr>\<rparr>)\<rparr>))
   \<and> status (fst (handleUpload_001 (form_request ''POST'' ''/upload'' [(''file'', FormFile ex_photo)])
                      ex_upload_env ex_platform)) = 200
   \<and> status (fst (handleUpload_002 (form_request ''POST'' ''/upload'' [(''file'', FormFile ex_photo)])
                      ex_upload_env ex_platform)) = 200
   \<and> (\<exists>base. handleUpload_000 (form_request ''POST'' ''/upload'' [(''file'', FormFile ex_photo)])
                  ex_upload_env ex_platform
     = (uploaded_response
          (base @ ''1793700000000-123e4567-e89b-42d3-a456-426614174000.png'')
          ''1793700000000-123e4567-e89b-42d3-a456-426614174000.png'' ex_platform,
        ex_upload_env\<lparr>IMAGES_BUCKET := (IMAGES_BUCKET ex_upload_env)
          (''1793700000000-123e4567-e89b-42d3-a456-426614174000.png'' \<mapsto>
             \<lparr>object_bytes = ''PNGDATA'',
              httpMetadata = \<lparr>contentType = Some ''image/png'',
                              cacheControl = Some ''public, max-age=31536000, immutable''\<rparr>\<rparr>)\<rparr>))
   \<and> status (fst (handleUpload_000 (form_request ''POST'' ''/upload'' [(''file'', FormFile ex_photo)])
                      ex_upload_env ex_platform)) = 200
   \<and> (\<exists>base meta.
         fst (handleUpload_001 (form_request ''POST'' ''/upload'' [(''file'', FormFile ex_photo)])
                ex_upload_env ex_platform)
           = uploaded_response (base @ ''1793700000000-123e4567-e89b-42d3-a456-426614174000.png'')
               ''1793700000000-123e4567-e89b-42d3-a456-426614174000.png'' ex_platform
       \<and> IMAGES_BUCKET (snd (handleUpload_001 (form_request ''POST'' ''/upload'' [(''file'', FormFile ex_photo)])
                                 ex_upload_env ex_platform))
            ''1793700000000-123e4567-e89b-42d3-a456-426614174000.png''
           = Some \<lparr>object_bytes = ''PNGDATA'', httpMetadata = meta\<rparr>)"
proof -
  let ?req = "form_request ''POST'' ''/upload'' [(''file'', FormFile ex_photo)]"
  let ?key = "''1793700000000-123e4567-e89b-42d3-a456-426614174000.png''"
  have gen: "generate_filename ex_platform ex_photo = ?key"
    by (simp add: generate_filename_def ex_platform_def ex_photo_def pop_def show_nat.simps digit_char_def)
  have fd: "formData_result ?req = Inr [(''file'', FormFile ex_photo)]
      \<and> map_of [(''file'', FormFile ex_photo)] ''file'' = Some (FormFile ex_photo)
      \<and> store_fault ex_platform = None"
    by (simp add: form_request_def ex_platform_def)
  have ph: "file_bytes ex_photo = ''PNGDATA''" "file_type ex_photo = ''image/png''"
    by (simp_all add: ex_photo_def)
  note total = upload_key_format [THEN conjunct1, THEN mp, OF fd, unfolded gen ph]
  have r1: "handleUpload_001 ?req ex_upload_env ex_platform
     = (uploaded_response (''https://pub-YOUR-R2-BUCKET-ID.r2.dev/'' @ ?key) ?key ex_platform,
        ex_upload_env\<lparr>IMAGES_BUCKET := (IMAGES_BUCKET ex_upload_env)(?key \<mapsto>
             \<lparr>object_bytes = ''PNGDATA'',
              httpMetadata = \<lparr>contentType = Some ''image/png'', cacheControl = None\<rparr>\<rparr>)\<rparr>)"
    by (rule total [THEN conjunct2, THEN conjunct1])
  have r2: "\<exists>base. handleUpload_002 ?req ex_upload_env ex_platform
     = (uploaded_response (base @ ?key) ?key ex_platform,
        ex_upload_env\<lparr>IMAGES_BUCKET := (IMAGES_BUCKET ex_upload_env)(?key \<mapsto>
             \<lparr>object_bytes = ''PNGDATA'',
              httpMetadata = \<lparr>contentType = Some ''image/png'',
                              cacheControl = Some ''public, max-age=31536000, immutable''\<rparr>\<rparr>)\<rparr>)"
    by (rule total [THEN conjunct2, THEN conjunct2, THEN conjunct1])
  have s1: "status (fst (handleUpload_001 ?req ex_upload_env ex_platform)) = 200"
    by (rule total [THEN conjunct2, THEN conjunct2, THEN conjunct2, THEN conjunct1])
  have s2: "status (fst (handleUpload_002 ?req ex_upload_env ex_platform)) = 200"
    by (rule total [THEN conjunct2, THEN conjunct2, THEN conjunct2, THEN conjunct2, THEN conjunct1])
  have r0: "\<exists>base. handleUpload_000 ?req ex_upload_env ex_platform
     = (uploaded_response (base @ ?key) ?key ex_platform,
        ex_upload_env\<lparr>IMAGES_BUCKET := (IMAGES_BUCKET ex_upload_env)(?key \<mapsto>
             \<lparr>object_bytes = ''PNGDATA'',
              httpMetadata = \<lparr>contentType = Some ''image/png'',
                              cacheControl = Some ''public, max-age=31536000, immutable''\<rparr>\<rparr>)\<rparr>)"
    by (rule total [THEN conjunct2, THEN conjunct2, THEN conjunct2, THEN conjunct2, THEN conjunct2,
          THEN conjunct1])
  have s0: "status (fst (handleUpload_000 ?req ex_upload_env ex_platform)) = 200"
    by (rule total [THEN conjunct2, THEN conjunct2, THEN conjunct2, THEN conjunct2, THEN conjunct2,
          THEN conjunct2])
  have pre: "(handleUpload_001 ?req ex_upload_env ex_platform
        = (fst (handleUpload_001 ?req ex_upload_env ex_platform),
           snd (handleUpload_001 ?req ex_upload_env ex_platform))
      \<or> handleUpload_002 ?req ex_upload_env ex_platform
        = (fst (handleUpload_001 ?req ex_upload_env ex_platform),
           snd (handleUpload_001 ?req ex_upload_env ex_platform))
      \<or> handleUpload_000 ?req ex_upload_env ex_platform
        = (fst (handleUpload_001 ?req ex_upload_env ex_platform),
           snd (handleUpload_001 ?req ex_upload_env ex_platform)))
      \<and> status (fst (handleUpload_001 ?req ex_upload_env ex_platform)) = 200"
    using s1 by simp
  from upload_key_format [THEN conjunct2, THEN mp, OF pre] obtain formData f key base where h:
    "formData_result ?req = Inr formData" "map_of formData ''file'' = Some (FormFile f)"
    "key = show_nat (now_ms ex_platform) @ ''-'' @ uuid ex_platform @ ''.'' @ last (split_on (CHR ''.'') (file_name f))"
    "fst (handleUpload_001 ?req ex_upload_env ex_platform) = uploaded_response (base @ key) key ex_platform"
    "\<exists>meta. IMAGES_BUCKET (snd (handleUpload_001 ?req ex_upload_env ex_platform)) key
        = Some \<lparr>object_bytes = file_bytes f, httpMetadata = meta\<rparr>"
    by blast
  have f: "f = ex_photo"
    using h(1,2) by (auto simp: form_request_def)
  have k: "key = ?key"
    using h(3) gen unfolding f by (simp add: generate_filename_eq)
  have c: "\<exists>base meta.
         fst (handleUpload_001 ?req ex_upload_env ex_platform)
           = uploaded_response (base @ ?key) ?key ex_platform
       \<and> IMAGES_BUCKET (snd (handleUpload_001 ?req ex_upload_env ex_platform)) ?key
           = Some \<lparr>object_bytes = ''PNGDATA'', httpMetadata = meta\<rparr>"
    using h(4,5) unfolding k f ph by blast
  from r1 r2 s1 s2 r0 s0 c show ?thesis
    by (intro conjI)
qed

subsection \<open>Uploads without a file\<close>

text \<open>
  C8. For every upload request whose form data contains no \<^verbatim>\<open>file\<close> field, the upload
  operation (each copy of the uploader, also when reached through its router by a POST)
  returns the client error \<open>400 Bad Request\<close> with the message \<open>No file provided\<close>,
  and the object store is left exactly as it was.
\<close>

theorem upload_without_file_field:
  assumes "formData_result request = Inr formData" and "map_of formData ''file'' = None"
  shows "handleUpload_001 request e p = (no_file_response, e)
       \<and> handleUpload_002 request e p = (no_file_response, e)
       \<and> (req_method request = ''POST'' \<longrightarrow>
             fetch_001 request e p = (no_file_response, e) \<and> fetch_002 request e p = (no_file_response, e))
       \<and> status no_file_response = 400
       \<and> body_text no_file_response
           = Some (JSON_stringify (JObj [(''error'', JStr ''Bad Request''), (''message'', JStr ''No file provided'')]))
       \<and> handleUpload_000 request e p = (no_file_response, e)
       \<and> (req_method request = ''POST'' \<longrightarrow> fetch_000 request e p = (no_file_response, e))"
  using assms
  by (simp add: handleUpload_001_def handleUpload_002_def handleUpload_000_def
      fetch_001_def fetch_002_def fetch_000_def
      no_file_response_def json_response_def error_body_def)

theorem upload_without_file_field_witness:
  "fetch_001 (form_request ''POST'' ''/upload'' [(''caption'', FormString ''regatta'')])
       (ex_upload_env\<lparr>IMAGES_BUCKET := [''old.png'' \<mapsto>
          \<lparr>object_bytes = ''OLD'', httpMetadata = \<lparr>contentType = Some ''image/png'', cacheControl = None\<rparr>\<rparr>]\<rparr>)
       ex_platform
     = (no_file_response,
        ex_upload_env\<lparr>IMAGES_BUCKET := [''old.png'' \<mapsto>
          \<lparr>object_bytes = ''OLD'', httpMetadata = \<lparr>contentType = Some ''image/png'', cacheControl = None\<rparr>\<rparr>]\<rparr>)
   \<and> fetch_002 (form_request ''POST'' ''/upload'' [(''caption'', FormString ''regatta'')])
       (ex_upload_env\<lparr>IMAGES_BUCKET := [''old.png'' \<mapsto>
          \<lparr>object_bytes = ''OLD'', httpMetadata = \<lparr>contentType = Some ''image/png'', cacheControl = None\<rparr>\<rparr>]\<rparr>)
       ex_platform
     = (no_file_response,
        ex_upload_env\<lparr>IMAGES_BUCKET := [''old.png'' \<mapsto>
          \<lparr>object_bytes = ''OLD'', httpMetadata = \<lparr>contentType = Some ''image/png'', cacheControl = None\<rparr>\<rparr>]\<rparr>)
   \<and> status no_file_response = 400
   \<and> fetch_000 (form_request ''POST'' ''/upload'' [(''caption'', FormString ''regatta'')])
       (ex_upload_env\<lparr>IMAGES_BUCKET := [''old.png'' \<mapsto>
          \<lparr>object_bytes = ''OLD'', httpMetadata = \<lparr>contentType = Some ''image/png'', cacheControl = None\<rparr>\<rparr>]\<rparr>)
       ex_platform
     = (no_file_response,
        ex_upload_env\<lparr>IMAGES_BUCKET := [''old.png'' \<mapsto>
          \<lparr>object_bytes = ''OLD'', httpMetadata = \<lparr>contentType = Some ''image/png'', cacheControl = None\<rparr>\<rparr>]\<rparr>)"
proof -
  let ?req = "form_request ''POST'' ''/upload'' [(''caption'', FormString ''regatta'')]"
  have a: "formData_result ?req = Inr [(''caption'', FormString ''regatta'')]"
    by (simp add: form_request_def)
  have b: "map_of [(''caption'', FormString ''regatta'')] ''file'' = None"
    by simp
  have c: "req_method ?req = ''POST''"
    by (simp add: form_request_def)
  show ?thesis
    using upload_without_file_field [OF a b] c by simp
qed

subsection \<open>Routing of the upload worker\<close>

lemma handleUpload_pathname:
  "handleUpload_001 (request\<lparr>pathname := path\<rparr>) e p = handleUpload_001 request e p"
  "handleUpload_002 (request\<lparr>pathname := path\<rparr>) e p = handleUpload_002 request e p"
  "handleUpload_000 (request\<lparr>pathname := path\<rparr>) e p = handleUpload_000 request e p"
  by (simp_all add: handleUpload_001_def handleUpload_002_def handleUpload_000_def)

text \<open>
  C10. The upload worker (each copy) does not inspect the request path: replacing the
  path of a request by any other path leaves the response and the resulting environment
  unchanged, and every POST request, whatever its path, is answered by the upload handler.
\<close>

theorem upload_router_ignores_path:
  "fetch_001 (request\<lparr>pathname := path\<rparr>) e p = fetch_001 request e p
   \<and> fetch_002 (request\<lparr>pathname := path\<rparr>) e p = fetch_002 request e p
   \<and> (req_method request = ''POST'' \<longrightarrow>
         fetch_001 (request\<lparr>pathname := path\<rparr>) e p = handleUpload_001 request e p
       \<and> fetch_002 (request\<lparr>pathname := path\<rparr>) e p = handleUpload_002 request e p)
   \<and> fetch_000 (request\<lparr>pathname := path\<rparr>) e p = fetch_000 request e p
   \<and> (req_method request = ''POST'' \<longrightarrow>
         fetch_000 (request\<lparr>pathname := path\<rparr>) e p = handleUpload_000 request e p)"
  by (simp add: fetch_001_def fetch_002_def fetch_000_def handleUpload_pathname)

theorem upload_router_ignores_path_witness:
  "req_method (form_request ''POST'' ''/upload'' [(''file'', FormFile ex_photo)]) = ''POST''
   \<and> fetch_002 (form_request ''POST'' ''/content/update'' [(''file'', FormFile ex_photo)]) ex_upload_env ex_platform
       = handleUpload_002 (form_request ''POST'' ''/upload'' [(''file'', FormFile ex_photo)]) ex_upload_env ex_platform
   \<and> fetch_001 (form_request ''POST'' ''/content/update'' [(''file'', FormFile ex_photo)]) ex_upload_env ex_platform
       = handleUpload_001 (form_request ''POST'' ''/upload'' [(''file'', FormFile ex_photo)]) ex_upload_env ex_platform
   \<and> fetch_002 (form_request ''POST'' ''/content/update'' [(''file'', FormFile ex_photo)]) ex_upload_env ex_platform
       = fetch_002 (form_request ''POST'' ''/upload'' [(''file'', FormFile ex_photo)]) ex_upload_env ex_platform
   \<and> fetch_000 (form_request ''POST'' ''/content/update'' [(''file'', FormFile ex_photo)]) ex_upload_env ex_platform
       = handleUpload_000 (form_request ''POST'' ''/upload'' [(''file'', FormFile ex_photo)]) ex_upload_env ex_platform"
proof -
  let ?req = "form_request ''POST'' ''/upload'' [(''file'', FormFile ex_photo)]"
  have m: "req_method ?req = ''POST''"
    by (simp add: form_request_def)
  have r: "?req\<lparr>pathname := ''/content/update''\<rparr>
      = form_request ''POST'' ''/content/update'' [(''file'', FormFile ex_photo)]"
    by (simp add: form_request_def)
  show ?thesis
    using upload_router_ignores_path
            [where request = ?req and path = "''/content/update''" and e = ex_upload_env and p = ex_platform] m
    unfolding r by metis
qed

subsection \<open>Metadata of the stored object\<close>

lemma upload_002_metadata:
  assumes "handleUpload_002 request e p = (res, e')" and "status res = 200"
  shows "\<exists>formData f. formData_result request = Inr formData \<and> map_of formData ''file'' = Some (FormFile f)
           \<and> IMAGES_BUCKET e' (generate_filename p f)
               = Some \<lparr>object_bytes = file_bytes f,
                       httpMetadata = \<lparr>contentType = Some (file_type f),
                                       cacheControl = Some ''public, max-age=31536000, immutable''\<rparr>\<rparr>"
  using handleUpload_002_success [OF assms] by auto

lemma upload_000_metadata:
  assumes "handleUpload_000 request e p = (res, e')" and "status res = 200"
  shows "\<exists>formData f. formData_result request = Inr formData \<and> map_of formData ''file'' = Some (FormFile f)
           \<and> IMAGES_BUCKET e' (generate_filename p f)
               = Some \<lparr>object_bytes = file_bytes f,
                       httpMetadata = \<lparr>contentType = Some (file_type f),
                                       cacheControl = Some ''public, max-age=31536000, immutable''\<rparr>\<rparr>"
  using handleUpload_000_success [OF assms] by auto

lemma upload_001_metadata:
  assumes "handleUpload_001 request e p = (res, e')" and "status res = 200"
  shows "\<exists>formData f. formData_result request = Inr formData \<and> map_of formData ''file'' = Some (FormFile f)
           \<and> IMAGES_BUCKET e' (generate_filename p f)
               = Some \<lparr>object_bytes = file_bytes f,
                       httpMetadata = \<lparr>contentType = Some (file_type f), cacheControl = None\<rparr>\<rparr>"
  using handleUpload_001_success [OF assms] by auto

text \<open>
  C7. Every successful upload writes the object with metadata consisting of the declared
  content type and a long-lived immutable cache directive. The copies of the uploader in
  \<^verbatim>\<open>src/unnamed/part_002\<close> and \<^verbatim>\<open>src/unnamed/part_000\<close> do so (lemmas
  \<open>upload_002_metadata\<close> and \<open>upload_000_metadata\<close>); the copy in
  \<^verbatim>\<open>src/unnamed/part_001\<close> passes \<^verbatim>\<open>contentType\<close> only. Uploading
  \<^verbatim>\<open>photo.png\<close> through \<^verbatim>\<open>part_001\<close> succeeds with status 200 and stores the object
  with no cache directive.
\<close>

theorem upload_001_stores_no_cache_directive:
  "status (fst (handleUpload_001 (form_request ''POST'' ''/upload'' [(''file'', FormFile ex_photo)])
                  ex_upload_env ex_platform)) = 200
   \<and> IMAGES_BUCKET (snd (handleUpload_001 (form_request ''POST'' ''/upload'' [(''file'', FormFile ex_photo)])
                           ex_upload_env ex_platform))
        ''1793700000000-123e4567-e89b-42d3-a456-426614174000.png''
      = Some \<lparr>object_bytes = ''PNGDATA'',
              httpMetadata = \<lparr>contentType = Some ''image/png'', cacheControl = None\<rparr>\<rparr>"
proof -
  have gen: "generate_filename ex_platform ex_photo = ''1793700000000-123e4567-e89b-42d3-a456-426614174000.png''"
    by (simp add: generate_filename_def ex_platform_def ex_photo_def pop_def show_nat.simps digit_char_def)
  show ?thesis
    by (simp add: handleUpload_001_def form_request_def gen [unfolded ex_platform_def ex_photo_def]
        r2_put_def Let_def ex_platform_def ex_photo_def ex_upload_env_def)
qed

section \<open>Properties of the content worker\<close>

subsection \<open>Outcomes of the update handler\<close>

lemma validSections_nonempty: "name \<in> set validSections \<Longrightarrow> name \<noteq> []"
  by (auto simp: validSections_def)


lemma update_outcomes:
  "handleUpdateContent request e p = (unauthorized_response, e) \<and> unauthorized request e
   \<or> (\<exists>err. handleUpdateContent request e p = (internal_error corsHeaders err, e)) \<and> \<not> unauthorized request e
   \<or> handleUpdateContent request e p = (missing_fields_response, e) \<and> \<not> unauthorized request e
   \<or> handleUpdateContent request e p = (invalid_section_response, e) \<and> \<not> unauthorized request e
   \<or> (\<exists>body name data.
         json_result request = Inr body \<and> get_property body ''section'' = Inr (Some (JStr name))
       \<and> name \<in> set validSections \<and> get_property body ''data'' = Inr (Some data) \<and> truthy data
       \<and> store_fault p = None \<and> \<not> unauthorized request e
       \<and> handleUpdateContent request e p
           = (updated_response name p,
              e\<lparr>CONTENT_STORE := (CONTENT_STORE e)(name \<mapsto> JSON_stringify data)\<rparr>))"
  by (auto simp: handleUpdateContent_def kv_put_def
      split: sum.splits option.splits json.splits if_splits)


lemma update_status_401:
  "status (fst (handleUpdateContent request e p)) = 401 \<longleftrightarrow> unauthorized request e"
  using update_outcomes [of request e p] by auto

lemma invalid_section_message:
  "''Invalid section. Must be one of: '' @ join '', '' validSections
     = ''Invalid section. Must be one of: general, about, events, gallery, team''"
  by (simp add: validSections_def)

lemma error_bodies_differ:
  "body_text missing_fields_response \<noteq> body_text invalid_section_response"
  by (simp add: missing_fields_response_def invalid_section_response_def json_response_def
      error_body_def invalid_section_message quote_json_def escape_char_def)

subsection \<open>Sections outside the whitelist\<close>

text \<open>
  C1 (as amended). For every update request whose body has no whitelisted \<^verbatim>\<open>section\<close>
  value, no key-value store write occurs: the environment, and with it the stored state
  of every section, is returned unchanged. When such a request passes the authorization
  check and carries truthy \<^verbatim>\<open>section\<close> and \<^verbatim>\<open>data\<close> values, the response is the
  client error (status 400) whose message lists the valid section names.
\<close>

theorem unlisted_section_rejected:
  assumes "json_result request = Inr body"
      and "\<forall>name \<in> set validSections. get_property body ''section'' \<noteq> Inr (Some (JStr name))"
  shows "snd (handleUpdateContent request e p) = e
       \<and> (\<not> unauthorized request e \<and> truthy_property body ''section'' \<and> truthy_property body ''data''
            \<longrightarrow> handleUpdateContent request e p = (invalid_section_response, e))
       \<and> status invalid_section_response = 400
       \<and> body_text invalid_section_response
           = Some (JSON_stringify (JObj
               [(''error'', JStr ''Bad Request''),
                (''message'', JStr ''Invalid section. Must be one of: general, about, events, gallery, team'')]))"
proof -
  have store: "snd (handleUpdateContent request e p) = e"
    using update_outcomes [of request e p] assms by auto
  have resp: "handleUpdateContent request e p = (invalid_section_response, e)"
    if "\<not> unauthorized request e" "truthy_property body ''section''" "truthy_property body ''data''"
    using that assms
    by (auto simp: handleUpdateContent_def truthy_property_def
        split: sum.splits option.splits json.splits if_splits)
  have msg: "body_text invalid_section_response
           = Some (JSON_stringify (JObj
               [(''error'', JStr ''Bad Request''),
                (''message'', JStr ''Invalid section. Must be one of: general, about, events, gallery, team'')]))"
    unfolding invalid_section_response_def invalid_section_message
    by (simp add: json_response_def error_body_def)
  show ?thesis
    using store resp msg by simp
qed

theorem unlisted_section_rejected_witness:
  "handleUpdateContent
      (json_request ''POST'' ''/content/update'' [] (JObj [(''section'', JStr ''sponsors''), (''data'', ex_team)]))
      (ex_env\<lparr>CONTENT_STORE := [''team'' \<mapsto> ''[1]'']\<rparr>) ex_platform
    = (invalid_section_response, ex_env\<lparr>CONTENT_STORE := [''team'' \<mapsto> ''[1]'']\<rparr>)
   \<and> status invalid_section_response = 400"
proof -
  let ?body = "JObj [(''section'', JStr ''sponsors''), (''data'', ex_team)]"
  let ?req = "json_request ''POST'' ''/content/update'' [] ?body"
  let ?env = "ex_env\<lparr>CONTENT_STORE := [''team'' \<mapsto> ''[1]'']\<rparr>"
  have a: "json_result ?req = Inr ?body"
    by (simp add: json_request_def)
  have b: "\<forall>name \<in> set validSections. get_property ?body ''section'' \<noteq> Inr (Some (JStr name))"
    by (simp add: validSections_def)
  have c: "\<not> unauthorized ?req ?env"
    by (simp add: unauthorized_def ex_env_def truthy_str_def)
  have d: "truthy_property ?body ''section''" "truthy_property ?body ''data''"
    by (simp_all add: truthy_property_def ex_team_def)
  show ?thesis
    using unlisted_section_rejected [OF a b, of ?env ex_platform] c d by simp
qed

text \<open>
  The claim as stated fails: with no admin credential configured, the body
  \<^verbatim>\<open>{"section":"sponsors"}\<close> has a \<^verbatim>\<open>section\<close> outside the whitelist, and the answer is
  the missing-fields error, whose message does not list the valid section names.
\<close>

theorem unlisted_section_counterexample:
  "get_property (JObj [(''section'', JStr ''sponsors'')]) ''section'' = Inr (Some (JStr ''sponsors''))
   \<and> ''sponsors'' \<notin> set validSections
   \<and> fst (handleUpdateContent
            (json_request ''POST'' ''/content/update'' [] (JObj [(''section'', JStr ''sponsors'')]))
            ex_env ex_platform)
       = json_response 400 corsHeaders
           (error_body ''Bad Request'' ''Missing required fields: section and data'')
   \<and> body_text (fst (handleUpdateContent
            (json_request ''POST'' ''/content/update'' [] (JObj [(''section'', JStr ''sponsors'')]))
            ex_env ex_platform))
       \<noteq> body_text invalid_section_response"
proof -
  have run: "fst (handleUpdateContent
            (json_request ''POST'' ''/content/update'' [] (JObj [(''section'', JStr ''sponsors'')]))
            ex_env ex_platform) = missing_fields_response"
    by (simp add: handleUpdateContent_def json_request_def unauthorized_def ex_env_def truthy_str_def)
  show ?thesis
    unfolding run using error_bodies_differ
    by (simp add: validSections_def missing_fields_response_def)
qed

subsection \<open>The authorization check\<close>

lemma toLowerCase_append: "toLowerCase (a @ b) = toLowerCase a @ toLowerCase b"
  by (simp add: toLowerCase_def)

lemma toLowerCase_Bearer: "toLowerCase ''Bearer '' = ''bearer ''"
  by (simp add: toLowerCase_def to_lower_def)

lemma providedToken_bearer:
  assumes "headers_get (req_headers request) ''x-admin-token'' = None
           \<or> headers_get (req_headers request) ''x-admin-token'' = Some []"
      and "headers_get (req_headers request) ''authorization'' = Some (''Bearer '' @ t)"
  shows "providedToken request = Some t"
proof -
  have "or_else (headers_get (req_headers request) ''x-admin-token'')
          (headers_get (req_headers request) ''authorization'') = Some (''Bearer '' @ t)"
    using assms by (auto simp: or_else_def)
  moreover have "startsWith (toLowerCase (''Bearer '' @ t)) ''bearer ''"
    unfolding toLowerCase_append toLowerCase_Bearer by (simp add: startsWith_def)
  ultimately show ?thesis
    by (simp add: providedToken_def)
qed

lemma providedToken_admin_header:
  assumes "headers_get (req_headers request) ''x-admin-token'' = Some t" and "t \<noteq> []"
      and "\<not> startsWith (toLowerCase t) ''bearer ''"
  shows "providedToken request = Some t"
  using assms by (simp add: providedToken_def or_else_def)

lemma providedToken_absent:
  assumes "headers_get (req_headers request) ''x-admin-token'' = None"
      and "headers_get (req_headers request) ''authorization'' = None"
  shows "providedToken request = None"
  using assms by (simp add: providedToken_def or_else_def)

text \<open>
  C2 (as amended). Whenever an admin credential is configured, every update request whose
  presented token (the value of the \<^verbatim>\<open>x-admin-token\<close> header if non-empty, else of the
  \<^verbatim>\<open>authorization\<close> header, with one leading \<^verbatim>\<open>Bearer \<close> removed) is missing or differs
  from the credential returns the authorization error (status 401) and the environment,
  the key-value store included, unchanged; in particular a request with neither header
  does. A request carrying the credential in the \<^verbatim>\<open>x-admin-token\<close> header passes the
  authorization check provided the credential does not itself begin with \<^verbatim>\<open>bearer \<close> in
  any letter case, and a request carrying \<^verbatim>\<open>Authorization: Bearer <credential>\<close> passes
  provided no non-empty \<^verbatim>\<open>x-admin-token\<close> header is present.
\<close>

theorem admin_token_check:
  assumes "ADMIN_TOKEN e = Some t" and "t \<noteq> []"
  shows "(providedToken request \<noteq> Some t
            \<longrightarrow> handleUpdateContent request e p = (unauthorized_response, e))
       \<and> (headers_get (req_headers request) ''x-admin-token'' = None
            \<and> headers_get (req_headers request) ''authorization'' = None
            \<longrightarrow> handleUpdateContent request e p = (unauthorized_response, e))
       \<and> (headers_get (req_headers request) ''x-admin-token'' = Some t
            \<and> \<not> startsWith (toLowerCase t) ''bearer ''
            \<longrightarrow> \<not> unauthorized request e \<and> status (fst (handleUpdateContent request e p)) \<noteq> 401)
       \<and> ((headers_get (req_headers request) ''x-admin-token'' = None
             \<or> headers_get (req_headers request) ''x-admin-token'' = Some [])
            \<and> headers_get (req_headers request) ''authorization'' = Some (''Bearer '' @ t)
            \<longrightarrow> \<not> unauthorized request e \<and> status (fst (handleUpdateContent request e p)) \<noteq> 401)
       \<and> status unauthorized_response = 401
       \<and> body_text unauthorized_response
           = Some (JSON_stringify (JObj
               [(''error'', JStr ''Unauthorized''), (''message'', JStr ''Missing or invalid admin token'')]))"
proof -
  have reject: "handleUpdateContent request e p = (unauthorized_response, e)"
    if "providedToken request \<noteq> Some t"
  proof -
    have "unauthorized request e"
      using that assms by (auto simp: unauthorized_def truthy_str_def split: option.splits)
    then show ?thesis
      by (simp add: handleUpdateContent_def)
  qed
  have pass: "\<not> unauthorized request e \<and> status (fst (handleUpdateContent request e p)) \<noteq> 401"
    if "providedToken request = Some t"
  proof -
    have "\<not> unauthorized request e"
      using that assms by (simp add: unauthorized_def truthy_str_def)
    then show ?thesis
      by (simp add: update_status_401)
  qed
  have absent: "handleUpdateContent request e p = (unauthorized_response, e)"
    if "headers_get (req_headers request) ''x-admin-token'' = None"
       "headers_get (req_headers request) ''authorization'' = None"
    using reject providedToken_absent [OF that] by simp
  have msg: "body_text unauthorized_response
           = Some (JSON_stringify (JObj
               [(''error'', JStr ''Unauthorized''), (''message'', JStr ''Missing or invalid admin token'')]))"
    by (simp add: unauthorized_response_def json_response_def error_body_def)
  have admin: "\<not> unauthorized request e \<and> status (fst (handleUpdateContent request e p)) \<noteq> 401"
    if "headers_get (req_headers request) ''x-admin-token'' = Some t
        \<and> \<not> startsWith (toLowerCase t) ''bearer ''"
    using that pass providedToken_admin_header [OF _ assms(2)] by blast
  have bearer: "\<not> unauthorized request e \<and> status (fst (handleUpdateContent request e p)) \<noteq> 401"
    if "(headers_get (req_headers request) ''x-admin-token'' = None
          \<or> headers_get (req_headers request) ''x-admin-token'' = Some [])
        \<and> headers_get (req_headers request) ''authorization'' = Some (''Bearer '' @ t)"
    using that pass providedToken_bearer by blast
  have st: "status unauthorized_response = 401"
    by simp
  from reject absent admin bearer st msg show ?thesis
    by blast
qed

theorem admin_token_check_witness:
  "handleUpdateContent
      (json_request ''POST'' ''/content/update'' [(''x-admin-token'', ''wrong'')]
         (JObj [(''section'', JStr ''team''), (''data'', ex_team)]))
      (ex_env\<lparr>ADMIN_TOKEN := Some ''s3cret''\<rparr>) ex_platform
    = (unauthorized_response, ex_env\<lparr>ADMIN_TOKEN := Some ''s3cret''\<rparr>)
   \<and> handleUpdateContent
      (json_request ''POST'' ''/content/update'' []
         (JObj [(''section'', JStr ''team''), (''data'', ex_team)]))
      (ex_env\<lparr>ADMIN_TOKEN := Some ''s3cret''\<rparr>) ex_platform
    = (unauthorized_response, ex_env\<lparr>ADMIN_TOKEN := Some ''s3cret''\<rparr>)
   \<and> status (fst (handleUpdateContent
      (json_request ''POST'' ''/content/update'' [(''x-admin-token'', ''s3cret'')]
         (JObj [(''section'', JStr ''team''), (''data'', ex_team)]))
      (ex_env\<lparr>ADMIN_TOKEN := Some ''s3cret''\<rparr>) ex_platform)) \<noteq> 401
   \<and> status (fst (handleUpdateContent
      (json_request ''POST'' ''/content/update'' [(''authorization'', ''Bearer s3cret'')]
         (JObj [(''section'', JStr ''team''), (''data'', ex_team)]))
      (ex_env\<lparr>ADMIN_TOKEN := Some ''s3cret''\<rparr>) ex_platform)) \<noteq> 401"
proof -
  let ?body = "JObj [(''section'', JStr ''team''), (''data'', ex_team)]"
  let ?env = "ex_env\<lparr>ADMIN_TOKEN := Some ''s3cret''\<rparr>"
  let ?wrong = "json_request ''POST'' ''/content/update'' [(''x-admin-token'', ''wrong'')] ?body"
  let ?none = "json_request ''POST'' ''/content/update'' [] ?body"
  let ?admin = "json_request ''POST'' ''/content/update'' [(''x-admin-token'', ''s3cret'')] ?body"
  let ?bearer = "json_request ''POST'' ''/content/update'' [(''authorization'', ''Bearer s3cret'')] ?body"
  have cfg: "ADMIN_TOKEN ?env = Some ''s3cret''" "''s3cret'' \<noteq> []"
    by (simp_all add: ex_env_def)
  have w: "providedToken ?wrong \<noteq> Some ''s3cret''"
    by (simp add: providedToken_def json_request_def headers_get_def or_else_def startsWith_def
        toLowerCase_def to_lower_def)
  have n: "headers_get (req_headers ?none) ''x-admin-token'' = None"
          "headers_get (req_headers ?none) ''authorization'' = None"
    by (simp_all add: json_request_def headers_get_def)
  have a: "headers_get (req_headers ?admin) ''x-admin-token'' = Some ''s3cret''"
          "\<not> startsWith (toLowerCase ''s3cret'') ''bearer ''"
    by (simp_all add: json_request_def headers_get_def startsWith_def toLowerCase_def to_lower_def)
  have b: "headers_get (req_headers ?bearer) ''x-admin-token'' = None"
          "headers_get (req_headers ?bearer) ''authorization'' = Some (''Bearer '' @ ''s3cret'')"
    by (simp_all add: json_request_def headers_get_def)
  note check = admin_token_check [OF cfg]
  have r1: "handleUpdateContent ?wrong ?env ex_platform = (unauthorized_response, ?env)"
    by (rule check [THEN conjunct1, THEN mp]) (rule w)
  have r2: "handleUpdateContent ?none ?env ex_platform = (unauthorized_response, ?env)"
    by (rule check [THEN conjunct2, THEN conjunct1, THEN mp]) (intro conjI n)
  have r3: "status (fst (handleUpdateContent ?admin ?env ex_platform)) \<noteq> 401"
    by (rule check [THEN conjunct2, THEN conjunct2, THEN conjunct1, THEN mp, THEN conjunct2])
       (intro conjI a)
  have r4: "status (fst (handleUpdateContent ?bearer ?env ex_platform)) \<noteq> 401"
    by (rule check [THEN conjunct2, THEN conjunct2, THEN conjunct2, THEN conjunct1, THEN mp, THEN conjunct2])
       (intro conjI disjI1 b)
  from r1 r2 r3 r4 show ?thesis
    by (intro conjI)
qed

text \<open>
  The claim as stated fails: when the configured credential is \<^verbatim>\<open>Bearer abc\<close>, a request
  carrying exactly that credential in the \<^verbatim>\<open>x-admin-token\<close> header is stripped to
  \<^verbatim>\<open>abc\<close> and rejected.
\<close>

theorem admin_token_counterexample:
  "headers_get (req_headers
       (json_request ''POST'' ''/content/update'' [(''x-admin-token'', ''Bearer abc'')]
          (JObj [(''section'', JStr ''team''), (''data'', ex_team)]))) ''x-admin-token''
     = ADMIN_TOKEN (ex_env\<lparr>ADMIN_TOKEN := Some ''Bearer abc''\<rparr>)
   \<and> providedToken
       (json_request ''POST'' ''/content/update'' [(''x-admin-token'', ''Bearer abc'')]
          (JObj [(''section'', JStr ''team''), (''data'', ex_team)])) = Some ''abc''
   \<and> handleUpdateContent
       (json_request ''POST'' ''/content/update'' [(''x-admin-token'', ''Bearer abc'')]
          (JObj [(''section'', JStr ''team''), (''data'', ex_team)]))
       (ex_env\<lparr>ADMIN_TOKEN := Some ''Bearer abc''\<rparr>) ex_platform
     = (json_response 401 corsHeaders (error_body ''Unauthorized'' ''Missing or invalid admin token''),
        ex_env\<lparr>ADMIN_TOKEN := Some ''Bearer abc''\<rparr>)"
proof -
  have tok: "providedToken
       (json_request ''POST'' ''/content/update'' [(''x-admin-token'', ''Bearer abc'')]
          (JObj [(''section'', JStr ''team''), (''data'', ex_team)])) = Some ''abc''"
    by (simp add: providedToken_def json_request_def headers_get_def or_else_def startsWith_def
        toLowerCase_def to_lower_def)
  have hdr: "headers_get (req_headers
       (json_request ''POST'' ''/content/update'' [(''x-admin-token'', ''Bearer abc'')]
          (JObj [(''section'', JStr ''team''), (''data'', ex_team)]))) ''x-admin-token''
     = ADMIN_TOKEN (ex_env\<lparr>ADMIN_TOKEN := Some ''Bearer abc''\<rparr>)"
    by (simp add: json_request_def headers_get_def)
  have un: "unauthorized
       (json_request ''POST'' ''/content/update'' [(''x-admin-token'', ''Bearer abc'')]
          (JObj [(''section'', JStr ''team''), (''data'', ex_team)]))
       (ex_env\<lparr>ADMIN_TOKEN := Some ''Bearer abc''\<rparr>)"
    unfolding unauthorized_def tok by (simp add: truthy_str_def)
  have run: "handleUpdateContent
       (json_request ''POST'' ''/content/update'' [(''x-admin-token'', ''Bearer abc'')]
          (JObj [(''section'', JStr ''team''), (''data'', ex_team)]))
       (ex_env\<lparr>ADMIN_TOKEN := Some ''Bearer abc''\<rparr>) ex_platform
     = (json_response 401 corsHeaders (error_body ''Unauthorized'' ''Missing or invalid admin token''),
        ex_env\<lparr>ADMIN_TOKEN := Some ''Bearer abc''\<rparr>)"
    unfolding handleUpdateContent_def unauthorized_response_def using un by (simp only: if_True)
  from hdr tok run show ?thesis
    by (intro conjI)
qed

subsection \<open>Validation of the request body\<close>

text \<open>
  C5 (as amended). For an update request that passes the authorization check and whose
  body is a JSON value other than \<^verbatim>\<open>null\<close>, the answer is the missing-fields client
  error exactly when \<^verbatim>\<open>section\<close> or \<^verbatim>\<open>data\<close> is absent or falsy (\<^verbatim>\<open>null\<close>,
  \<^verbatim>\<open>false\<close>, \<^verbatim>\<open>0\<close> or the empty string); the \<^verbatim>\<open>data\<close> value is otherwise not
  inspected, so every request with a whitelisted section and truthy data proceeds to the
  store write, which puts the JSON text of the data under the section name.
\<close>

theorem update_validation:
  assumes "\<not> unauthorized request e" and "json_result request = Inr body" and "body \<noteq> JNull"
  shows "(fst (handleUpdateContent request e p) = missing_fields_response
            \<longleftrightarrow> \<not> truthy_property body ''section'' \<or> \<not> truthy_property body ''data'')
       \<and> (\<forall>name d. get_property body ''section'' = Inr (Some (JStr name)) \<and> name \<in> set validSections
              \<and> get_property body ''data'' = Inr (Some d) \<and> truthy d
            \<longrightarrow> handleUpdateContent request e p
                 = (case kv_put p (CONTENT_STORE e) name (JSON_stringify d) of
                      Inl err \<Rightarrow> (internal_error corsHeaders err, e)
                    | Inr kv \<Rightarrow> (updated_response name p, e\<lparr>CONTENT_STORE := kv\<rparr>))
               \<and> (store_fault p = None \<longrightarrow>
                    handleUpdateContent request e p
                    = (updated_response name p,
                       e\<lparr>CONTENT_STORE := (CONTENT_STORE e)(name \<mapsto> JSON_stringify d)\<rparr>)))
       \<and> status missing_fields_response = 400
       \<and> body_text missing_fields_response
           = Some (JSON_stringify (JObj
               [(''error'', JStr ''Bad Request''),
                (''message'', JStr ''Missing required fields: section and data'')]))"
proof -
  have np: "\<And>k. \<exists>v. get_property body k = Inr v"
    using assms(3) by (cases body) simp_all
  have miss: "fst (handleUpdateContent request e p) = missing_fields_response"
    if "\<not> truthy_property body ''section'' \<or> \<not> truthy_property body ''data''"
    using that assms np [of "''section''"] np [of "''data''"]
    by (auto simp: handleUpdateContent_def truthy_property_def
        split: sum.splits option.splits if_splits)
  have other: "fst (handleUpdateContent request e p) \<noteq> missing_fields_response"
    if t: "truthy_property body ''section''" "truthy_property body ''data''"
  proof -
    from t obtain sv d where
      s: "get_property body ''section'' = Inr (Some sv)" "truthy sv"
      and d: "get_property body ''data'' = Inr (Some d)" "truthy d"
      by (auto simp: truthy_property_def split: sum.splits option.splits)
    have "fst (handleUpdateContent request e p) = invalid_section_response
        \<or> status (fst (handleUpdateContent request e p)) \<noteq> 400"
      using assms s d
      by (auto simp: handleUpdateContent_def split: sum.splits option.splits json.splits)
    then show ?thesis
      using error_bodies_differ by auto
  qed
  have put: "handleUpdateContent request e p
                 = (case kv_put p (CONTENT_STORE e) name (JSON_stringify d) of
                      Inl err \<Rightarrow> (internal_error corsHeaders err, e)
                    | Inr kv \<Rightarrow> (updated_response name p, e\<lparr>CONTENT_STORE := kv\<rparr>))"
    if "get_property body ''section'' = Inr (Some (JStr name))" "name \<in> set validSections"
       "get_property body ''data'' = Inr (Some d)" "truthy d" for name d
    using that assms validSections_nonempty [OF that(2)]
    by (simp add: handleUpdateContent_def)
  have msg: "body_text missing_fields_response
           = Some (JSON_stringify (JObj
               [(''error'', JStr ''Bad Request''),
                (''message'', JStr ''Missing required fields: section and data'')]))"
    by (simp add: missing_fields_response_def json_response_def error_body_def)
  have first: "fst (handleUpdateContent request e p) = missing_fields_response
            \<longleftrightarrow> \<not> truthy_property body ''section'' \<or> \<not> truthy_property body ''data''"
    using miss other by blast
  have second: "\<forall>name d. get_property body ''section'' = Inr (Some (JStr name)) \<and> name \<in> set validSections
              \<and> get_property body ''data'' = Inr (Some d) \<and> truthy d
            \<longrightarrow> handleUpdateContent request e p
                 = (case kv_put p (CONTENT_STORE e) name (JSON_stringify d) of
                      Inl err \<Rightarrow> (internal_error corsHeaders err, e)
                    | Inr kv \<Rightarrow> (updated_response name p, e\<lparr>CONTENT_STORE := kv\<rparr>))
               \<and> (store_fault p = None \<longrightarrow>
                    handleUpdateContent request e p
                    = (updated_response name p,
                       e\<lparr>CONTENT_STORE := (CONTENT_STORE e)(name \<mapsto> JSON_stringify d)\<rparr>))"
    using put by (auto simp: kv_put_def)
  show ?thesis
    using first second msg by simp
qed

theorem update_validation_witness:
  "handleUpdateContent
      (json_request ''POST'' ''/content/update'' [] (JObj [(''section'', JStr ''team''), (''data'', ex_team)]))
      ex_env ex_platform
    = (updated_response ''team'' ex_platform,
       ex_env\<lparr>CONTENT_STORE := (CONTENT_STORE ex_env)(''team'' \<mapsto> JSON_stringify ex_team)\<rparr>)
   \<and> fst (handleUpdateContent
      (json_request ''POST'' ''/content/update'' [] (JObj [(''section'', JStr ''team''), (''data'', ex_team)]))
      ex_env ex_platform) \<noteq> missing_fields_response"
proof -
  let ?body = "JObj [(''section'', JStr ''team''), (''data'', ex_team)]"
  let ?req = "json_request ''POST'' ''/content/update'' [] ?body"
  have un: "\<not> unauthorized ?req ex_env"
    by (simp add: unauthorized_def ex_env_def truthy_str_def)
  have jr: "json_result ?req = Inr ?body"
    by (simp add: json_request_def)
  have nn: "?body \<noteq> JNull"
    by simp
  have tp: "truthy_property ?body ''section''" "truthy_property ?body ''data''"
    by (simp_all add: truthy_property_def ex_team_def)
  have flds: "get_property ?body ''section'' = Inr (Some (JStr ''team'')) \<and> ''team'' \<in> set validSections
      \<and> get_property ?body ''data'' = Inr (Some ex_team) \<and> truthy ex_team"
    by (simp add: validSections_def ex_team_def)
  have nf: "store_fault ex_platform = None"
    by (simp add: ex_platform_def)
  note v = update_validation [OF un jr nn, of ex_platform]
  have r1: "fst (handleUpdateContent ?req ex_env ex_platform) \<noteq> missing_fields_response"
    using v [THEN conjunct1] tp by blast
  have r2: "handleUpdateContent ?req ex_env ex_platform
    = (updated_response ''team'' ex_platform,
       ex_env\<lparr>CONTENT_STORE := (CONTENT_STORE ex_env)(''team'' \<mapsto> JSON_stringify ex_team)\<rparr>)"
    by (rule v [THEN conjunct2, THEN conjunct1, rule_format, THEN conjunct2, rule_format, OF flds nf])
  from r2 r1 show ?thesis
    by (intro conjI)
qed

text \<open>
  The claim as stated fails: the body \<^verbatim>\<open>{"section":"team","data":false}\<close> contains both
  fields and a whitelisted section, yet it is answered with the missing-fields client
  error and nothing is written.
\<close>

theorem update_validation_counterexample:
  "get_property (JObj [(''section'', JStr ''team''), (''data'', JBool False)]) ''section''
     = Inr (Some (JStr ''team''))
   \<and> ''team'' \<in> set validSections
   \<and> get_property (JObj [(''section'', JStr ''team''), (''data'', JBool False)]) ''data''
     = Inr (Some (JBool False))
   \<and> handleUpdateContent
       (json_request ''POST'' ''/content/update'' []
          (JObj [(''section'', JStr ''team''), (''data'', JBool False)]))
       ex_env ex_platform
     = (json_response 400 corsHeaders
          (error_body ''Bad Request'' ''Missing required fields: section and data''),
        ex_env)"
proof -
  have un: "\<not> unauthorized
       (json_request ''POST'' ''/content/update'' []
          (JObj [(''section'', JStr ''team''), (''data'', JBool False)])) ex_env"
    by (simp add: unauthorized_def ex_env_def truthy_str_def)
  have run: "handleUpdateContent
       (json_request ''POST'' ''/content/update'' []
          (JObj [(''section'', JStr ''team''), (''data'', JBool False)]))
       ex_env ex_platform
     = (missing_fields_response, ex_env)"
    unfolding handleUpdateContent_def using un by (simp add: json_request_def)
  show ?thesis
    unfolding run by (simp add: validSections_def missing_fields_response_def)
qed

subsection \<open>Reading the sections\<close>

lemma kv_get_json_visible:
  assumes "kv_get_json p kv k = Inr data"
  shows "visible_value p kv k = (if truthy data then Some data else None)"
  using assms
  by (auto simp: kv_get_json_def visible_value_def split: option.splits)

lemma read_sections_Inr:
  "read_sections p kv ks c = Inr c' \<Longrightarrow>
     map_of c' = (\<lambda>k. if k \<in> set ks \<and> visible_value p kv k \<noteq> None then visible_value p kv k else map_of c k)"
proof (induction ks arbitrary: c)
  case Nil
  then show ?case by simp
next
  case (Cons k ks)
  from Cons.prems obtain data where g: "kv_get_json p kv k = Inr data"
    by (cases "kv_get_json p kv k") simp_all
  note vis = kv_get_json_visible [OF g]
  show ?case
  proof (cases "truthy data")
    case True
    with Cons.prems g have "read_sections p kv ks (AList.update k data c) = Inr c'"
      by simp
    from Cons.IH [OF this] show ?thesis
      using vis True by (auto simp: update_conv fun_eq_iff)
  next
    case False
    with Cons.prems g have "read_sections p kv ks c = Inr c'"
      by simp
    from Cons.IH [OF this] show ?thesis
      using vis False by (auto simp: fun_eq_iff)
  qed
qed

lemma read_sections_total:
  assumes "store_fault p = None"
      and "\<forall>k \<in> set ks. \<forall>t. kv k = Some t \<longrightarrow> json_parse p t \<noteq> None"
  shows "\<exists>c'. read_sections p kv ks c = Inr c'"
  using assms(2)
proof (induction ks arbitrary: c)
  case Nil
  then show ?case by simp
next
  case (Cons k ks)
  have "\<exists>data. kv_get_json p kv k = Inr data"
    using assms(1) Cons.prems by (auto simp: kv_get_json_def split: option.splits)
  then obtain data where g: "kv_get_json p kv k = Inr data" ..
  from Cons.prems have rest: "\<forall>k \<in> set ks. \<forall>t. kv k = Some t \<longrightarrow> json_parse p t \<noteq> None"
    by simp
  show ?case
    using g Cons.IH [OF rest] by simp
qed

lemma handleGetContent_Inr:
  assumes "handleGetContent e p = Inr r"
  shows "\<exists>content. r = json_response 200 corsHeaders (JObj content)
           \<and> map_of content = (\<lambda>k. if k \<in> set sections then visible_value p (CONTENT_STORE e) k else None)"
proof -
  from assms obtain c where c: "read_sections p (CONTENT_STORE e) sections [] = Inr c"
    by (cases "read_sections p (CONTENT_STORE e) sections []") (simp_all add: handleGetContent_def)
  have m: "map_of c = (\<lambda>k. if k \<in> set sections then visible_value p (CONTENT_STORE e) k else None)"
    using read_sections_Inr [OF c] by (auto simp: fun_eq_iff)
  have "r = json_response 200 corsHeaders (JObj c)"
    using assms c by (cases c) (simp_all add: handleGetContent_def)
  with m show ?thesis by blast
qed

lemma handleGetContent_total:
  assumes "store_fault p = None"
      and "\<forall>k \<in> set sections. \<forall>t. CONTENT_STORE e k = Some t \<longrightarrow> json_parse p t \<noteq> None"
  shows "\<exists>r. handleGetContent e p = Inr r"
proof -
  obtain c where "read_sections p (CONTENT_STORE e) sections [] = Inr c"
    using read_sections_total [OF assms] by blast
  then show ?thesis
    by (simp add: handleGetContent_def)
qed

lemma read_sections_Inl:
  assumes "(store_fault p \<noteq> None \<and> ks \<noteq> [])
           \<or> (\<exists>k \<in> set ks. \<exists>t. kv k = Some t \<and> json_parse p t = None)"
  shows "\<exists>err. read_sections p kv ks c = Inl err"
  using assms
proof (induction ks arbitrary: c)
  case Nil
  then show ?case by simp
next
  case (Cons k ks)
  show ?case
  proof (cases "kv_get_json p kv k")
    case (Inl err)
    then show ?thesis by simp
  next
    case (Inr data)
    then have nf: "store_fault p = None" and ok: "\<forall>t. kv k = Some t \<longrightarrow> json_parse p t \<noteq> None"
      by (auto simp: kv_get_json_def split: option.splits)
    with Cons.prems have "\<exists>k \<in> set ks. \<exists>t. kv k = Some t \<and> json_parse p t = None"
      by auto
    then have "\<And>c. \<exists>err. read_sections p kv ks c = Inl err"
      using Cons.IH by blast
    then show ?thesis
      using Inr by simp
  qed
qed

lemma handleGetContent_Inl:
  assumes "store_fault p \<noteq> None
           \<or> (\<exists>k \<in> set sections. \<exists>t. CONTENT_STORE e k = Some t \<and> json_parse p t = None)"
  shows "\<exists>err. handleGetContent e p = Inl err"
proof -
  have "sections \<noteq> []"
    by (simp add: sections_def)
  with assms obtain err where "read_sections p (CONTENT_STORE e) sections [] = Inl err"
    using read_sections_Inl [of p sections "CONTENT_STORE e" "[]"] by blast
  then show ?thesis
    by (simp add: handleGetContent_def)
qed

text \<open>
  C4 (as amended). For every state of the key-value store in which the stored text of
  each whitelisted section is valid JSON (the runtime's \<^verbatim>\<open>JSON.parse\<close> accepts it), and
  with the store readable, the fetch-all operation returns status 200 and a mapping whose
  domain is exactly the set of whitelisted sections whose stored text parses to a truthy
  value, each mapped to its parsed value; sections with no stored value, and sections
  whose stored value is falsy (\<^verbatim>\<open>null\<close>, \<^verbatim>\<open>false\<close>, \<^verbatim>\<open>0\<close> or the empty string),
  are omitted without error. In particular, when no whitelisted section has a stored
  value, the mapping is empty. In every other state (the store unreadable, or a
  whitelisted section holding text that is not valid JSON) the operation returns no
  mapping and fails. The statement holds for whatever the parser returns.
\<close>

theorem fetch_all_content:
  "(store_fault p = None
      \<and> (\<forall>k \<in> set sections. \<forall>t. CONTENT_STORE e k = Some t \<longrightarrow> json_parse p t \<noteq> None)
    \<longrightarrow> (\<exists>content.
           handleGetContent e p = Inr (json_response 200 corsHeaders (JObj content))
         \<and> map_of content = (\<lambda>k. if k \<in> set sections then visible_value p (CONTENT_STORE e) k else None)
         \<and> fst ` set content = {k \<in> set sections. visible_value p (CONTENT_STORE e) k \<noteq> None}
         \<and> (\<forall>k v. map_of content k = Some v \<longleftrightarrow>
               k \<in> set sections
               \<and> (\<exists>t. CONTENT_STORE e k = Some t \<and> json_parse p t = Some v \<and> truthy v))
         \<and> ((\<forall>k \<in> set sections. CONTENT_STORE e k = None) \<longrightarrow> content = [])))
   \<and> (store_fault p \<noteq> None
        \<or> (\<exists>k \<in> set sections. \<exists>t. CONTENT_STORE e k = Some t \<and> json_parse p t = None)
    \<longrightarrow> (\<exists>err. handleGetContent e p = Inl err))"
proof (intro conjI impI)
  assume "store_fault p \<noteq> None
        \<or> (\<exists>k \<in> set sections. \<exists>t. CONTENT_STORE e k = Some t \<and> json_parse p t = None)"
  then show "\<exists>err. handleGetContent e p = Inl err"
    by (rule handleGetContent_Inl)
next
  assume a: "store_fault p = None
      \<and> (\<forall>k \<in> set sections. \<forall>t. CONTENT_STORE e k = Some t \<longrightarrow> json_parse p t \<noteq> None)"
  then have nf: "store_fault p = None"
    and valid: "\<forall>k \<in> set sections. \<forall>t. CONTENT_STORE e k = Some t \<longrightarrow> json_parse p t \<noteq> None"
    by simp_all
  obtain r where r: "handleGetContent e p = Inr r"
    using handleGetContent_total [OF nf valid] by blast
  from handleGetContent_Inr [OF r] obtain content where
    c: "r = json_response 200 corsHeaders (JObj content)"
    and m: "map_of content = (\<lambda>k. if k \<in> set sections then visible_value p (CONTENT_STORE e) k else None)"
    by blast
  have d: "fst ` set content = {k \<in> set sections. visible_value p (CONTENT_STORE e) k \<noteq> None}"
  proof -
    have "fst ` set content = dom (map_of content)"
      by (simp add: dom_map_of_conv_image_fst)
    also have "\<dots> = {k \<in> set sections. visible_value p (CONTENT_STORE e) k \<noteq> None}"
      unfolding m by (auto simp: dom_def)
    finally show ?thesis .
  qed
  have v: "\<forall>k v. map_of content k = Some v \<longleftrightarrow>
               k \<in> set sections
               \<and> (\<exists>t. CONTENT_STORE e k = Some t \<and> json_parse p t = Some v \<and> truthy v)"
    unfolding m by (auto simp: visible_value_def split: option.splits if_splits)
  have n: "content = []" if "\<forall>k \<in> set sections. CONTENT_STORE e k = None"
  proof -
    have "fst ` set content = {}"
      unfolding d using that by (auto simp: visible_value_def)
    then show ?thesis by simp
  qed
  from r c m d v n show "\<exists>content.
           handleGetContent e p = Inr (json_response 200 corsHeaders (JObj content))
         \<and> map_of content = (\<lambda>k. if k \<in> set sections then visible_value p (CONTENT_STORE e) k else None)
         \<and> fst ` set content = {k \<in> set sections. visible_value p (CONTENT_STORE e) k \<noteq> None}
         \<and> (\<forall>k v. map_of content k = Some v \<longleftrightarrow>
               k \<in> set sections
               \<and> (\<exists>t. CONTENT_STORE e k = Some t \<and> json_parse p t = Some v \<and> truthy v))
         \<and> ((\<forall>k \<in> set sections. CONTENT_STORE e k = None) \<longrightarrow> content = [])"
    by blast
qed

lemma ex_parse_simps:
  "json_parse ex_platform ''null'' = Some JNull"
  "json_parse ex_platform ''false'' = Some (JBool False)"
  "json_parse ex_platform ''[1]'' = Some (JArr [JNum (Finite ''1'')])"
  "json_parse ex_platform (JSON_stringify ex_team) = Some ex_team"
  by (simp_all add: ex_platform_def ex_parse_def ex_team_def quote_json_def escape_char_def)

theorem fetch_all_content_witness:
  "\<exists>content.
      handleGetContent (ex_env\<lparr>CONTENT_STORE := [''team'' \<mapsto> ''[1]'', ''about'' \<mapsto> ''null'']\<rparr>) ex_platform
        = Inr (json_response 200 corsHeaders (JObj content))
    \<and> map_of content ''team'' = Some (JArr [JNum (Finite ''1'')])
    \<and> map_of content ''about'' = None
    \<and> map_of content ''events'' = None
    \<and> fst ` set content = {''team''}"
proof -
  let ?kv = "[''team'' \<mapsto> ''[1]'', ''about'' \<mapsto> ''null'']"
  let ?env = "ex_env\<lparr>CONTENT_STORE := ?kv\<rparr>"
  have p1: "json_parse ex_platform ''[1]'' = Some (JArr [JNum (Finite ''1'')])"
    by (rule ex_parse_simps)
  have p2: "json_parse ex_platform ''null'' = Some JNull"
    by (rule ex_parse_simps)
  have pre: "store_fault ex_platform = None
      \<and> (\<forall>k \<in> set sections. \<forall>t. CONTENT_STORE ?env k = Some t \<longrightarrow> json_parse ex_platform t \<noteq> None)"
    by (simp add: sections_def p1 p2) (simp add: ex_platform_def)
  have vis: "visible_value ex_platform ?kv ''team'' = Some (JArr [JNum (Finite ''1'')])"
            "visible_value ex_platform ?kv ''about'' = None"
            "visible_value ex_platform ?kv ''events'' = None"
            "visible_value ex_platform ?kv ''general'' = None"
            "visible_value ex_platform ?kv ''gallery'' = None"
    by (simp_all add: visible_value_def p1 p2)
  from fetch_all_content [THEN conjunct1, THEN mp, OF pre] obtain content where
    r: "handleGetContent ?env ex_platform = Inr (json_response 200 corsHeaders (JObj content))"
    and m: "map_of content
        = (\<lambda>k. if k \<in> set sections then visible_value ex_platform (CONTENT_STORE ?env) k else None)"
    and d: "fst ` set content
        = {k \<in> set sections. visible_value ex_platform (CONTENT_STORE ?env) k \<noteq> None}"
    by blast
  have m1: "map_of content ''team'' = Some (JArr [JNum (Finite ''1'')])"
    unfolding m using vis by (simp add: sections_def)
  have m2: "map_of content ''about'' = None"
    unfolding m using vis by (simp add: sections_def)
  have m3: "map_of content ''events'' = None"
    unfolding m using vis by (simp add: sections_def)
  have d1: "fst ` set content = {''team''}"
    unfolding d using vis by (auto simp: sections_def)
  from r m1 m2 m3 d1 show ?thesis
    by blast
qed

text \<open>
  The claim as stated fails: in the store state where \<^verbatim>\<open>team\<close> holds the text
  \<^verbatim>\<open>false\<close>, a whitelisted section has a stored value, which parses to \<^verbatim>\<open>false\<close>, and
  the fetch-all operation returns the empty mapping.
\<close>

theorem fetch_all_content_counterexample:
  "CONTENT_STORE (ex_env\<lparr>CONTENT_STORE := [''team'' \<mapsto> ''false'']\<rparr>) ''team'' = Some ''false''
   \<and> ''team'' \<in> set sections
   \<and> json_parse ex_platform ''false'' = Some (JBool False)
   \<and> handleGetContent (ex_env\<lparr>CONTENT_STORE := [''team'' \<mapsto> ''false'']\<rparr>) ex_platform
       = Inr (json_response 200 corsHeaders (JObj []))"
proof -
  have p: "json_parse ex_platform ''false'' = Some (JBool False)"
    by (rule ex_parse_simps)
  have nf: "store_fault ex_platform = None"
    by (simp add: ex_platform_def)
  have run: "handleGetContent (ex_env\<lparr>CONTENT_STORE := [''team'' \<mapsto> ''false'']\<rparr>) ex_platform
       = Inr (json_response 200 corsHeaders (JObj []))"
    by (simp add: handleGetContent_def sections_def kv_get_json_def nf p)
  from p run show ?thesis
    by (simp add: sections_def)
qed

subsection \<open>Update, then fetch\<close>




section \<open>Error responses of both workers\<close>

lemma update_error_shape:
  assumes "400 \<le> status (fst (handleUpdateContent request e p))"
  shows "\<exists>err m. fst (handleUpdateContent request e p)
           = json_response (status (fst (handleUpdateContent request e p))) corsHeaders (error_body err m)"
proof -
  consider (a) "fst (handleUpdateContent request e p) = unauthorized_response"
    | (b) err where "fst (handleUpdateContent request e p) = internal_error corsHeaders err"
    | (c) "fst (handleUpdateContent request e p) = missing_fields_response"
    | (d) "fst (handleUpdateContent request e p) = invalid_section_response"
    | (f) name where "fst (handleUpdateContent request e p) = updated_response name p"
    using update_outcomes [of request e p] by force
  then show ?thesis
  proof cases
    case a
    then show ?thesis unfolding a unauthorized_response_def by (simp add: json_response_def) blast
  next
    case b
    then show ?thesis unfolding b internal_error_def by (simp add: json_response_def) blast
  next
    case c
    then show ?thesis unfolding c missing_fields_response_def by (simp add: json_response_def) blast
  next
    case d
    then show ?thesis unfolding d invalid_section_response_def by (simp add: json_response_def) blast
  next
    case f
    with assms show ?thesis by simp
  qed
qed

lemma get_content_status: "handleGetContent e p = Inr r \<Longrightarrow> status r = 200"
  using handleGetContent_Inr [of e p r] by auto

lemma upload_outcomes:
  "(\<exists>err. fst (handleUpload_001 request e p) = internal_error corsHeaders_upload err)
     \<or> fst (handleUpload_001 request e p) = no_file_response
     \<or> (\<exists>u k. fst (handleUpload_001 request e p) = uploaded_response u k p)"
  "(\<exists>err. fst (handleUpload_002 request e p) = internal_error corsHeaders_upload err)
     \<or> fst (handleUpload_002 request e p) = no_file_response
     \<or> (\<exists>u k. fst (handleUpload_002 request e p) = uploaded_response u k p)"
  "(\<exists>err. fst (handleUpload_000 request e p) = internal_error corsHeaders_upload err)
     \<or> fst (handleUpload_000 request e p) = no_file_response
     \<or> (\<exists>u k. fst (handleUpload_000 request e p) = uploaded_response u k p)"
  by (auto simp: handleUpload_001_def handleUpload_002_def handleUpload_000_def Let_def
      split: sum.splits option.splits form_entry.splits)

lemma upload_error_shape:
  assumes "(\<exists>err. r = internal_error corsHeaders_upload err) \<or> r = no_file_response
           \<or> (\<exists>u k. r = uploaded_response u k p)"
      and "400 \<le> status r"
  shows "\<exists>err m. r = json_response (status r) corsHeaders_upload (error_body err m)"
proof -
  consider (a) err where "r = internal_error corsHeaders_upload err"
    | (b) "r = no_file_response"
    | (c) u k where "r = uploaded_response u k p"
    using assms(1) by blast
  then show ?thesis
  proof cases
    case a
    then show ?thesis unfolding a internal_error_def by (simp add: json_response_def) blast
  next
    case b
    then show ?thesis unfolding b no_file_response_def by (simp add: json_response_def) blast
  next
    case c
    with assms(2) show ?thesis by simp
  qed
qed

text \<open>
  C9 (as amended). Every error response (status 400 or above) of either service is a
  JSON body with \<^verbatim>\<open>error\<close> and \<^verbatim>\<open>message\<close> fields, except two plain-text responses: the
  content service's 404 \<open>Not Found\<close> for a request that matches no route, and the upload
  service's 405 \<open>Method Not Allowed\<close> for a request whose method is neither
  \<^verbatim>\<open>POST\<close> nor \<^verbatim>\<open>OPTIONS\<close>.
\<close>

theorem error_responses_are_json:
  "(400 \<le> status (fst (fetch request e p)) \<longrightarrow>
      (\<exists>err m. fst (fetch request e p)
         = json_response (status (fst (fetch request e p))) corsHeaders (error_body err m))
      \<or> (fst (fetch request e p) = not_found_response
          \<and> req_method request \<noteq> ''OPTIONS''
          \<and> (pathname request \<noteq> ''/content'' \<or> req_method request \<noteq> ''GET'')
          \<and> (pathname request \<noteq> ''/content/update'' \<or> req_method request \<noteq> ''POST'')))
   \<and> (400 \<le> status (fst (fetch_001 request u p)) \<longrightarrow>
      (\<exists>err m. fst (fetch_001 request u p)
         = json_response (status (fst (fetch_001 request u p))) corsHeaders_upload (error_body err m))
      \<or> (fst (fetch_001 request u p) = method_not_allowed_response
          \<and> req_method request \<noteq> ''OPTIONS'' \<and> req_method request \<noteq> ''POST''))
   \<and> (400 \<le> status (fst (fetch_002 request u p)) \<longrightarrow>
      (\<exists>err m. fst (fetch_002 request u p)
         = json_response (status (fst (fetch_002 request u p))) corsHeaders_upload (error_body err m))
      \<or> (fst (fetch_002 request u p) = method_not_allowed_response
          \<and> req_method request \<noteq> ''OPTIONS'' \<and> req_method request \<noteq> ''POST''))
   \<and> (400 \<le> status (fst (fetch_000 request u p)) \<longrightarrow>
      (\<exists>err m. fst (fetch_000 request u p)
         = json_response (status (fst (fetch_000 request u p))) corsHeaders_upload (error_body err m))
      \<or> (fst (fetch_000 request u p) = method_not_allowed_response
          \<and> req_method request \<noteq> ''OPTIONS'' \<and> req_method request \<noteq> ''POST''))"
proof (intro conjI impI)
  assume h: "400 \<le> status (fst (fetch request e p))"
  consider (opt) "req_method request = ''OPTIONS''"
    | (get) "req_method request \<noteq> ''OPTIONS''" "pathname request = ''/content''" "req_method request = ''GET''"
    | (upd) "req_method request \<noteq> ''OPTIONS''" "pathname request \<noteq> ''/content'' \<or> req_method request \<noteq> ''GET''"
            "pathname request = ''/content/update''" "req_method request = ''POST''"
    | (none) "req_method request \<noteq> ''OPTIONS''" "pathname request \<noteq> ''/content'' \<or> req_method request \<noteq> ''GET''"
            "pathname request \<noteq> ''/content/update'' \<or> req_method request \<noteq> ''POST''"
    by blast
  then show "(\<exists>err m. fst (fetch request e p)
         = json_response (status (fst (fetch request e p))) corsHeaders (error_body err m))
      \<or> (fst (fetch request e p) = not_found_response
          \<and> req_method request \<noteq> ''OPTIONS''
          \<and> (pathname request \<noteq> ''/content'' \<or> req_method request \<noteq> ''GET'')
          \<and> (pathname request \<noteq> ''/content/update'' \<or> req_method request \<noteq> ''POST''))"
  proof cases
    case opt
    with h show ?thesis by (simp add: fetch_def)
  next
    case get
    show ?thesis
    proof (cases "handleGetContent e p")
      case (Inl err)
      then have "fst (fetch request e p) = json_response 500 corsHeaders
          (error_body ''Internal Server Error'' (message err))"
        using get by (simp add: fetch_def internal_error_def)
      then show ?thesis by (simp add: json_response_def) blast
    next
      case (Inr r)
      then have "status (fst (fetch request e p)) = 200"
        using get get_content_status [OF Inr] by (simp add: fetch_def)
      with h show ?thesis by simp
    qed
  next
    case upd
    then have "fst (fetch request e p) = fst (handleUpdateContent request e p)"
      by (auto simp: fetch_def)
    with h update_error_shape [of request e p] show ?thesis by simp
  next
    case none
    then have "fst (fetch request e p) = not_found_response"
      by (auto simp: fetch_def)
    with none show ?thesis by blast
  qed
next
  assume h: "400 \<le> status (fst (fetch_001 request u p))"
  show "(\<exists>err m. fst (fetch_001 request u p)
         = json_response (status (fst (fetch_001 request u p))) corsHeaders_upload (error_body err m))
      \<or> (fst (fetch_001 request u p) = method_not_allowed_response
          \<and> req_method request \<noteq> ''OPTIONS'' \<and> req_method request \<noteq> ''POST'')"
  proof (cases "req_method request = ''POST''")
    case True
    then have eq: "fst (fetch_001 request u p) = fst (handleUpload_001 request u p)"
      by (simp add: fetch_001_def)
    show ?thesis
      using upload_error_shape [OF upload_outcomes(1) [of request u p]] h unfolding eq by blast
  next
    case False
    with h show ?thesis by (simp add: fetch_001_def split: if_splits)
  qed
next
  assume h: "400 \<le> status (fst (fetch_002 request u p))"
  show "(\<exists>err m. fst (fetch_002 request u p)
         = json_response (status (fst (fetch_002 request u p))) corsHeaders_upload (error_body err m))
      \<or> (fst (fetch_002 request u p) = method_not_allowed_response
          \<and> req_method request \<noteq> ''OPTIONS'' \<and> req_method request \<noteq> ''POST'')"
  proof (cases "req_method request = ''POST''")
    case True
    then have eq: "fst (fetch_002 request u p) = fst (handleUpload_002 request u p)"
      by (simp add: fetch_002_def)
    show ?thesis
      using upload_error_shape [OF upload_outcomes(2) [of request u p]] h unfolding eq by blast
  next
    case False
    with h show ?thesis by (simp add: fetch_002_def split: if_splits)
  qed
next
  assume h: "400 \<le> status (fst (fetch_000 request u p))"
  show "(\<exists>err m. fst (fetch_000 request u p)
         = json_response (status (fst (fetch_000 request u p))) corsHeaders_upload (error_body err m))
      \<or> (fst (fetch_000 request u p) = method_not_allowed_response
          \<and> req_method request \<noteq> ''OPTIONS'' \<and> req_method request \<noteq> ''POST'')"
  proof (cases "req_method request = ''POST''")
    case True
    then have eq: "fst (fetch_000 request u p) = fst (handleUpload_000 request u p)"
      by (simp add: fetch_000_def)
    show ?thesis
      using upload_error_shape [OF upload_outcomes(3) [of request u p]] h unfolding eq by blast
  next
    case False
    with h show ?thesis by (simp add: fetch_000_def split: if_splits)
  qed
qed

theorem error_responses_are_json_witness:
  "400 \<le> status (fst (fetch (json_request ''POST'' ''/content/update'' [] (JObj [(''section'', JStr ''sponsors'')]))
                          ex_env ex_platform))
   \<and> (\<exists>err m. fst (fetch (json_request ''POST'' ''/content/update'' [] (JObj [(''section'', JStr ''sponsors'')]))
                       ex_env ex_platform)
         = json_response 400 corsHeaders (error_body err m))
   \<and> 400 \<le> status (fst (fetch_002 (form_request ''POST'' ''/upload'' []) ex_upload_env ex_platform))
   \<and> (\<exists>err m. fst (fetch_002 (form_request ''POST'' ''/upload'' []) ex_upload_env ex_platform)
         = json_response 400 corsHeaders_upload (error_body err m))"
proof -
  let ?req = "json_request ''POST'' ''/content/update'' [] (JObj [(''section'', JStr ''sponsors'')])"
  let ?up = "form_request ''POST'' ''/upload'' []"
  have un: "\<not> unauthorized ?req ex_env"
    by (simp add: unauthorized_def ex_env_def truthy_str_def)
  have run: "fst (fetch ?req ex_env ex_platform) = missing_fields_response"
    unfolding fetch_def handleUpdateContent_def using un by (simp add: json_request_def)
  have s1: "status (fst (fetch ?req ex_env ex_platform)) = 400"
    unfolding run by simp
  have route: "pathname ?req = ''/content/update''" "req_method ?req = ''POST''"
    by (simp_all add: json_request_def)
  have g1: "400 \<le> status (fst (fetch ?req ex_env ex_platform))"
    unfolding s1 by simp
  have "(\<exists>err m. fst (fetch ?req ex_env ex_platform)
         = json_response (status (fst (fetch ?req ex_env ex_platform))) corsHeaders (error_body err m))
      \<or> (fst (fetch ?req ex_env ex_platform) = not_found_response
          \<and> req_method ?req \<noteq> ''OPTIONS''
          \<and> (pathname ?req \<noteq> ''/content'' \<or> req_method ?req \<noteq> ''GET'')
          \<and> (pathname ?req \<noteq> ''/content/update'' \<or> req_method ?req \<noteq> ''POST''))"
    by (rule error_responses_are_json [THEN conjunct1, THEN mp, OF g1])
  then have c1: "\<exists>err m. fst (fetch ?req ex_env ex_platform) = json_response 400 corsHeaders (error_body err m)"
    unfolding s1 using route by blast
  have run2: "fst (fetch_002 ?up ex_upload_env ex_platform) = no_file_response"
    by (simp add: fetch_002_def handleUpload_002_def form_request_def)
  have s2: "status (fst (fetch_002 ?up ex_upload_env ex_platform)) = 400"
    unfolding run2 by simp
  have m2: "req_method ?up = ''POST''"
    by (simp add: form_request_def)
  have g2: "400 \<le> status (fst (fetch_002 ?up ex_upload_env ex_platform))"
    unfolding s2 by simp
  have "(\<exists>err m. fst (fetch_002 ?up ex_upload_env ex_platform)
         = json_response (status (fst (fetch_002 ?up ex_upload_env ex_platform))) corsHeaders_upload (error_body err m))
      \<or> (fst (fetch_002 ?up ex_upload_env ex_platform) = method_not_allowed_response
          \<and> req_method ?up \<noteq> ''OPTIONS'' \<and> req_method ?up \<noteq> ''POST'')"
    by (rule error_responses_are_json [THEN conjunct2, THEN conjunct2, THEN conjunct1, THEN mp, OF g2])
  then have c2: "\<exists>err m. fst (fetch_002 ?up ex_upload_env ex_platform)
         = json_response 400 corsHeaders_upload (error_body err m)"
    unfolding s2 using m2 by blast
  from g1 c1 g2 c2 show ?thesis
    by (intro conjI)
qed

text \<open>
  The claim as stated fails: a \<^verbatim>\<open>GET\<close> request to the upload worker is answered with
  status 405 and the plain text \<open>Method Not Allowed\<close>, an error response that carries
  no JSON content type and no JSON body and is not the 404 of an unmatched route.
\<close>

theorem error_responses_counterexample:
  "fst (fetch_002 (form_request ''GET'' ''/upload'' []) ex_upload_env ex_platform)
     = \<lparr>status = 405, headers = corsHeaders_upload, body_text = Some ''Method Not Allowed''\<rparr>
   \<and> fst (fetch_001 (form_request ''GET'' ''/upload'' []) ex_upload_env ex_platform)
     = \<lparr>status = 405, headers = corsHeaders_upload, body_text = Some ''Method Not Allowed''\<rparr>
   \<and> map_of (headers (fst (fetch_002 (form_request ''GET'' ''/upload'' []) ex_upload_env ex_platform)))
         ''Content-Type'' = None
   \<and> fst (fetch_000 (form_request ''GET'' ''/upload'' []) ex_upload_env ex_platform)
     = \<lparr>status = 405, headers = corsHeaders_upload, body_text = Some ''Method Not Allowed''\<rparr>"
proof -
  have a: "fst (fetch_002 (form_request ''GET'' ''/upload'' []) ex_upload_env ex_platform)
     = \<lparr>status = 405, headers = corsHeaders_upload, body_text = Some ''Method Not Allowed''\<rparr>"
    by (simp add: fetch_002_def form_request_def method_not_allowed_response_def)
  have b: "fst (fetch_001 (form_request ''GET'' ''/upload'' []) ex_upload_env ex_platform)
     = \<lparr>status = 405, headers = corsHeaders_upload, body_text = Some ''Method Not Allowed''\<rparr>"
    by (simp add: fetch_001_def form_request_def method_not_allowed_response_def)
  have c: "map_of (headers (fst (fetch_002 (form_request ''GET'' ''/upload'' []) ex_upload_env ex_platform)))
         ''Content-Type'' = None"
    unfolding a by (simp add: corsHeaders_upload_def)
  have d: "fst (fetch_000 (form_request ''GET'' ''/upload'' []) ex_upload_env ex_platform)
     = \<lparr>status = 405, headers = corsHeaders_upload, body_text = Some ''Method Not Allowed''\<rparr>"
    by (simp add: fetch_000_def form_request_def method_not_allowed_response_def)
  from a b c d show ?thesis
    by (intro conjI)
qed

end
